theory Spec2Isabelle
  imports Complex_Main "HOL-Library.Sublist"
begin

section \<open>Data model\<close>

text \<open>
  Prices, quantities, strengths and clock readings are Python floats in the source; they
  are idealised here as exact reals.  A clock reading (\<open>datetime.utcnow()\<close>,
  \<open>time.time()\<close>) is an input of the operation that reads it, in seconds.
\<close>

datatype side = BUY | SELL

record take_profit =
  price :: real
  percentage :: real

text \<open>
  A position is a Python dict.  The keys \<open>leverage\<close>, \<open>exit_price\<close>, \<open>exit_time\<close>,
  \<open>exit_reason\<close> and \<open>pnl\<close> are absent until some operation sets them, and
  \<open>stop_loss\<close> may hold \<open>None\<close>: these are options.
\<close>

record position =
  symbol :: string
  pside :: side
  quantity :: real
  entry_price :: real
  leverage :: "int option"
  entry_time :: real
  stop_loss :: "real option"
  take_profits :: "take_profit list"
  exit_price :: "real option"
  exit_time :: "real option"
  exit_reason :: "string option"
  pnl :: "real option"

text \<open>One entry of the exchange's \<open>positionRisk\<close> answer.\<close>

record exchange_position =
  ep_symbol :: string
  positionAmt :: real
  entryPrice :: real
  markPrice :: real
  ep_leverage :: int
  unrealizedProfit :: real

section \<open>Position ledger (\<open>exchange/position_tracker.py\<close>)\<close>

text \<open>
  \<open>self.positions\<close> is a dict from symbol to position.  Python dicts keep insertion
  order and \<open>sync_with_exchange\<close> iterates over the keys, so the dict is an association
  list in insertion order; \<open>self.closed_positions\<close> is a list.
\<close>

record position_tracker =
  positions :: "(string \<times> position) list"
  closed_positions :: "position list"

definition new_tracker :: position_tracker where
  "new_tracker = \<lparr>positions = [], closed_positions = []\<rparr>"

definition tracked :: "position_tracker \<Rightarrow> string \<Rightarrow> bool" where
  "tracked tr s = (s \<in> set (map fst (positions tr)))"

definition add_position :: "position_tracker \<Rightarrow> position \<Rightarrow> position_tracker" where
  "add_position tr p =
     (if tracked tr (symbol p) then tr
      else tr\<lparr>positions := positions tr @ [(symbol p, p)]\<rparr>)"

definition get_position :: "position_tracker \<Rightarrow> string \<Rightarrow> position option" where
  "get_position tr s = map_of (positions tr) s"

text \<open>
  \<open>close_position(symbol, exit_price, exit_reason, pnl)\<close>; the extra argument \<open>now\<close>
  is the reading of \<open>datetime.utcnow()\<close>.
\<close>

definition close_record :: "position \<Rightarrow> real \<Rightarrow> real \<Rightarrow> string \<Rightarrow> real \<Rightarrow> position" where
  "close_record p xp now reason v =
     p\<lparr>exit_price := Some xp, exit_time := Some now, exit_reason := Some reason, pnl := Some v\<rparr>"

definition close_position ::
  "position_tracker \<Rightarrow> string \<Rightarrow> real \<Rightarrow> real \<Rightarrow> string \<Rightarrow> real \<Rightarrow> position_tracker" where
  "close_position tr s xp now reason v =
     (case map_of (positions tr) s of
        None \<Rightarrow> tr
      | Some p \<Rightarrow>
          tr\<lparr>closed_positions := closed_positions tr @ [close_record p xp now reason v],
             positions := filter (\<lambda>kv. fst kv \<noteq> s) (positions tr)\<rparr>)"

definition get_all_positions :: "position_tracker \<Rightarrow> position list" where
  "get_all_positions tr = map snd (positions tr)"

definition get_closed_positions :: "position_tracker \<Rightarrow> position list" where
  "get_closed_positions tr = closed_positions tr"

subsection \<open>Reconciliation\<close>

text \<open>
  \<open>sync_with_exchange\<close>: the first loop runs over a copy of the tracked keys and closes
  every symbol whose first snapshot entry is missing or has amount zero; the second loop
  runs over the snapshot and adopts every entry with a nonzero amount whose symbol is not
  tracked at that moment.
\<close>

definition sync_close_one ::
  "exchange_position list \<Rightarrow> real \<Rightarrow> position_tracker \<Rightarrow> string \<Rightarrow> position_tracker" where
  "sync_close_one xs now tr s =
     (case find (\<lambda>p. ep_symbol p = s) xs of
        None \<Rightarrow> close_position tr s 0 now ''external_close'' 0
      | Some pos \<Rightarrow>
          if positionAmt pos = 0
          then close_position tr s (markPrice pos) now ''external_close'' (unrealizedProfit pos)
          else tr)"

definition adopted :: "exchange_position \<Rightarrow> real \<Rightarrow> position" where
  "adopted pos now =
     \<lparr>symbol = ep_symbol pos,
      pside = (if positionAmt pos > 0 then BUY else SELL),
      quantity = \<bar>positionAmt pos\<bar>,
      entry_price = entryPrice pos,
      leverage = Some (ep_leverage pos),
      entry_time = now,
      stop_loss = None,
      take_profits = [],
      exit_price = None, exit_time = None, exit_reason = None, pnl = None\<rparr>"

definition sync_add_one ::
  "real \<Rightarrow> position_tracker \<Rightarrow> exchange_position \<Rightarrow> position_tracker" where
  "sync_add_one now tr pos =
     (if positionAmt pos \<noteq> 0 \<and> \<not> tracked tr (ep_symbol pos)
      then add_position tr (adopted pos now) else tr)"

definition sync_positions ::
  "position_tracker \<Rightarrow> exchange_position list \<Rightarrow> real \<Rightarrow> position_tracker" where
  "sync_positions tr xs now =
     foldl (sync_add_one now) (foldl (sync_close_one xs now) tr (map fst (positions tr))) xs"

text \<open>
  The snapshot query may raise; the error is logged and raised again.  An error is the
  message of the Python exception.
\<close>

definition sync_with_exchange ::
  "position_tracker \<Rightarrow> string + exchange_position list \<Rightarrow> real \<Rightarrow> string + position_tracker" where
  "sync_with_exchange tr answer now =
     (case answer of Inl e \<Rightarrow> Inl e | Inr xs \<Rightarrow> Inr (sync_positions tr xs now))"

text \<open>
  The ledger states the program can be in: the empty ledger of \<open>__init__\<close>, and whatever
  the three mutating operations make of a reachable ledger.
\<close>

inductive reachable :: "position_tracker \<Rightarrow> bool" where
  r_init: "reachable new_tracker"
| r_add: "reachable tr \<Longrightarrow> reachable (add_position tr p)"
| r_close: "reachable tr \<Longrightarrow> reachable (close_position tr s xp now reason v)"
| r_sync: "reachable tr \<Longrightarrow> reachable (sync_positions tr xs now)"

definition wf_tracker :: "position_tracker \<Rightarrow> bool" where
  "wf_tracker tr =
     (distinct (map fst (positions tr)) \<and> (\<forall>kv \<in> set (positions tr). symbol (snd kv) = fst kv))"

section \<open>Risk gate (\<open>strategies/risk_management.py\<close>)\<close>

text \<open>
  A signal is a dict.  \<open>can_trade\<close> reads \<open>strength\<close>, \<open>atr\<close> and \<open>price\<close> with
  \<open>signal.get(key, default)\<close>, so these keys may be absent.  The key \<open>signal\<close> holds the
  side.
\<close>

record signal =
  sig_symbol :: string
  sig_side :: side
  sig_price :: "real option"
  size :: real
  sig_stop_loss :: real
  sig_take_profits :: "take_profit list"
  strength :: "real option"
  atr :: "real option"

text \<open>The configuration values the risk gate reads, each with the default of its \<open>.get\<close>.\<close>

record config =
  min_signal_strength :: "real option"
  max_daily_loss :: "real option"
  max_concurrent_positions :: "int option"
  trade_cooldown_sec :: "real option"

definition or_default :: "'a option \<Rightarrow> 'a \<Rightarrow> 'a" where
  "or_default v d = (case v of None \<Rightarrow> d | Some x \<Rightarrow> x)"

text \<open>
  \<open>position_strengths\<close> is a dict whose items \<open>min\<close> scans in insertion order: an
  association list.  \<open>last_trade_time\<close> is only looked up: a map.
\<close>

record risk_management =
  last_trade_time :: "string \<Rightarrow> real option"
  daily_pnl :: real
  daily_start_time :: real
  position_strengths :: "(string \<times> real) list"

definition reset_daily_stats :: "risk_management \<Rightarrow> real \<Rightarrow> risk_management" where
  "reset_daily_stats rm now =
     (if now - daily_start_time rm > 86400
      then rm\<lparr>daily_pnl := 0, daily_start_time := now\<rparr> else rm)"

text \<open>
  \<open>min(items, key=lambda x: abs(x[1]), default=(None, 0))[0]\<close>: the first item of least
  magnitude, \<open>None\<close> on the empty dict.
\<close>

fun min_by_abs :: "(string \<times> real) \<Rightarrow> (string \<times> real) list \<Rightarrow> (string \<times> real)" where
  "min_by_abs best [] = best"
| "min_by_abs best (x # xs) = min_by_abs (if \<bar>snd x\<bar> < \<bar>snd best\<bar> then x else best) xs"

definition weakest_symbol :: "(string \<times> real) list \<Rightarrow> string option" where
  "weakest_symbol items = (case items of [] \<Rightarrow> None | x # xs \<Rightarrow> Some (fst (min_by_abs x xs)))"

datatype alert = DailyLossLimit real

definition has_open_position :: "exchange_position list \<Rightarrow> string \<Rightarrow> bool" where
  "has_open_position ps s = (find (\<lambda>p. ep_symbol p = s \<and> positionAmt p \<noteq> 0) ps \<noteq> None)"

definition signal_strength :: "signal \<Rightarrow> real" where
  "signal_strength sg = \<bar>or_default (strength sg) 0\<bar>"

text \<open>
  Check 4 of \<open>can_trade\<close>, reached with the open-position count at the maximum: the
  weakest tracked symbol, when there is one with a non-empty name, is displaced by a
  signal more than 20% stronger, and the function returns \<open>True\<close> at once.
\<close>

definition displaces :: "risk_management \<Rightarrow> real \<Rightarrow> bool" where
  "displaces rm s =
     (case weakest_symbol (position_strengths rm) of
        None \<Rightarrow> False
      | Some weakest \<Rightarrow>
          weakest \<noteq> [] \<and>
          s > \<bar>or_default (map_of (position_strengths rm) weakest) 0\<bar> * 1.2)"

text \<open>
  Checks 5 and 6.  The division \<open>atr / price\<close> raises \<open>ZeroDivisionError\<close> on a zero
  price; the \<open>except\<close> clause of \<open>can_trade\<close> turns every exception into \<open>False\<close>.
\<close>

definition too_volatile :: "signal \<Rightarrow> bool" where
  "too_volatile sg = (or_default (atr sg) 0 / or_default (sig_price sg) 1 > 0.05)"

definition in_cooldown :: "config \<Rightarrow> risk_management \<Rightarrow> real \<Rightarrow> string \<Rightarrow> bool" where
  "in_cooldown cfg rm now s =
     (now - or_default (last_trade_time rm s) 0 < or_default (trade_cooldown_sec cfg) 60)"

text \<open>
  \<open>can_trade(symbol, signal)\<close>.  The arguments \<open>answer\<close> and \<open>now\<close> are what
  \<open>client.get_position_risk()\<close> answers (an error message when it raises) and the clock
  reading.  The result is the boolean, the risk state after \<open>reset_daily_stats\<close>, and
  the alerts sent.
\<close>

definition can_trade ::
  "config \<Rightarrow> risk_management \<Rightarrow> string + exchange_position list \<Rightarrow> real \<Rightarrow> string \<Rightarrow> signal
     \<Rightarrow> bool \<times> risk_management \<times> alert list" where
  "can_trade cfg rm answer now s sg =
     (let rm1 = reset_daily_stats rm now in
      case answer of
        Inl e \<Rightarrow> (False, rm1, [])
      | Inr ps \<Rightarrow>
          if has_open_position ps s then (False, rm1, [])
          else if signal_strength sg < or_default (min_signal_strength cfg) 0.35
            then (False, rm1, [])
          else if daily_pnl rm1 < - or_default (max_daily_loss cfg) 5
            then (False, rm1, [DailyLossLimit (daily_pnl rm1)])
          else if int (length (filter (\<lambda>p. positionAmt p \<noteq> 0) ps))
                    \<ge> or_default (max_concurrent_positions cfg) 5
            then (displaces rm1 (signal_strength sg), rm1, [])
          else if or_default (sig_price sg) 1 = 0 then (False, rm1, [])
          else if too_volatile sg then (False, rm1, [])
          else if in_cooldown cfg rm1 now s then (False, rm1, [])
          else (True, rm1, []))"

section \<open>Order lifecycle engine (\<open>exchange/order_manager.py\<close>)\<close>

subsection \<open>The exchange client and the notifier\<close>

datatype order_type = MARKET | STOP_MARKET | TAKE_PROFIT_MARKET

text \<open>
  The arguments of one \<open>client.create_order\<close> call.  \<open>req_reduceOnly\<close> says whether
  the keyword argument \<open>reduceOnly\<close> is passed (the source passes \<open>True\<close> or
  \<open>"true"\<close>, or leaves it out).
\<close>

record order_request =
  req_symbol :: string
  req_side :: side
  req_quantity :: real
  req_type :: order_type
  req_stopPrice :: "real option"
  req_reduceOnly :: bool

record fill =
  fill_price :: real
  fill_qty :: real

text \<open>An order as the exchange answers it; every key but \<open>orderId\<close> may be absent.\<close>

record order =
  orderId :: nat
  order_symbol :: "string option"
  executedQty :: "real option"
  avgPrice :: "real option"
  fills :: "fill list option"

datatype message =
    TradeAlert signal real
  | OrderFailed string string
  | PositionClosed string string real
  | CloseFailed string string

datatype call =
    GetPositionRisk
  | CreateOrder order_request
  | GetOrder string nat
  | GetKlines string
  | GetPrecision string
  | CancelAllOrders string
  | GetOpenOrders string
  | Notify message

text \<open>
  The exchange is outside the program.  Each client method answers with a value or raises
  (\<open>Inl\<close> of the exception's message), and its answer may depend on everything asked of
  it so far: the history of calls.  \<open>get_klines\<close> answers the \<open>close\<close> column, oldest
  first.  The notifier's \<open>send_message\<close> and \<open>send_alert\<close> catch their own
  exceptions, so a notification is only recorded.
\<close>

record client =
  get_position_risk :: "call list \<Rightarrow> string + exchange_position list"
  create_order :: "call list \<Rightarrow> order_request \<Rightarrow> string + order"
  get_order :: "call list \<Rightarrow> string \<Rightarrow> nat \<Rightarrow> string + order"
  get_klines :: "call list \<Rightarrow> string \<Rightarrow> string + real list"
  get_precision :: "call list \<Rightarrow> string \<Rightarrow> string + nat"
  cancel_all_orders :: "call list \<Rightarrow> string \<Rightarrow> string + unit"
  get_open_orders :: "call list \<Rightarrow> string \<Rightarrow> string + order list"

text \<open>
  The state of an \<open>OrderManager\<close>, together with the calls it has issued so far.
  \<open>__init__\<close> sets no attribute \<open>risk_manager\<close>; \<open>close_position\<close> reads one, so the
  attribute is an option.  The notifier is taken to be present, as \<open>main.py\<close> builds it.
\<close>

record order_manager =
  trace :: "call list"
  position_tracker :: position_tracker
  active_orders :: "string list"
  risk_manager :: "risk_management option"

definition new_order_manager :: order_manager where
  "new_order_manager =
     \<lparr>trace = [], position_tracker = new_tracker, active_orders = [], risk_manager = None\<rparr>"

type_synonym 'a action = "order_manager \<Rightarrow> (string + 'a) \<times> order_manager"

definition returns :: "'a \<Rightarrow> 'a action" where
  "returns a w = (Inr a, w)"

definition raises :: "string \<Rightarrow> 'a action" where
  "raises e w = (Inl e, w)"

definition and_then :: "'a action \<Rightarrow> ('a \<Rightarrow> 'b action) \<Rightarrow> 'b action" where
  "and_then m f w = (case m w of (Inl e, w') \<Rightarrow> (Inl e, w') | (Inr a, w') \<Rightarrow> f a w')"

definition issue :: "call \<Rightarrow> order_manager \<Rightarrow> order_manager" where
  "issue c w = w\<lparr>trace := trace w @ [c]\<rparr>"

definition call_get_position_risk :: "client \<Rightarrow> exchange_position list action" where
  "call_get_position_risk cl w = (get_position_risk cl (trace w), issue GetPositionRisk w)"

definition call_create_order :: "client \<Rightarrow> order_request \<Rightarrow> order action" where
  "call_create_order cl req w = (create_order cl (trace w) req, issue (CreateOrder req) w)"

definition call_get_order :: "client \<Rightarrow> string \<Rightarrow> nat \<Rightarrow> order action" where
  "call_get_order cl s i w = (get_order cl (trace w) s i, issue (GetOrder s i) w)"

definition call_get_klines :: "client \<Rightarrow> string \<Rightarrow> real list action" where
  "call_get_klines cl s w = (get_klines cl (trace w) s, issue (GetKlines s) w)"

definition call_get_precision :: "client \<Rightarrow> string \<Rightarrow> nat action" where
  "call_get_precision cl s w = (get_precision cl (trace w) s, issue (GetPrecision s) w)"

definition call_cancel_all_orders :: "client \<Rightarrow> string \<Rightarrow> unit action" where
  "call_cancel_all_orders cl s w = (cancel_all_orders cl (trace w) s, issue (CancelAllOrders s) w)"

definition call_get_open_orders :: "client \<Rightarrow> string \<Rightarrow> order list action" where
  "call_get_open_orders cl s w = (get_open_orders cl (trace w) s, issue (GetOpenOrders s) w)"

text \<open>\<open>float(klines['close'].iloc[-1])\<close>: the last close, \<open>IndexError\<close> on no rows.\<close>

definition last_close :: "client \<Rightarrow> string \<Rightarrow> real action" where
  "last_close cl s =
     and_then (call_get_klines cl s) (\<lambda>closes.
       if closes = [] then raises ''single positional indexer is out-of-bounds''
       else returns (last closes))"

subsection \<open>Pure helpers\<close>

text \<open>\<open>"SELL" if side == "BUY" else "BUY"\<close>\<close>

definition opposite :: "side \<Rightarrow> side" where
  "opposite sd = (if sd = BUY then SELL else BUY)"

text \<open>\<open>float(order.get('executedQty', 0))\<close>\<close>

definition executed :: "order \<Rightarrow> real" where
  "executed ord = or_default (executedQty ord) 0"

text \<open>
  Python's \<open>round(x, n)\<close> on the idealised reals: to \<open>n\<close> decimals, a tie going to the
  even neighbour.
\<close>

definition py_round :: "real \<Rightarrow> nat \<Rightarrow> real" where
  "py_round x n =
     (let y = x * 10 ^ n; f = \<lfloor>y\<rfloor>; d = y - of_int f
      in of_int (if d < 1 / 2 then f else if d > 1 / 2 then f + 1
                 else if even f then f else f + 1) / 10 ^ n)"

text \<open>\<open>needle in haystack\<close> on strings.\<close>

fun is_substring :: "string \<Rightarrow> string \<Rightarrow> bool" where
  "is_substring needle [] = (needle = [])"
| "is_substring needle (c # cs) = (prefix needle (c # cs) \<or> is_substring needle cs)"

definition calculate_pnl :: "position \<Rightarrow> real \<Rightarrow> real" where
  "calculate_pnl p xp =
     (if pside p = BUY then (xp - entry_price p) * quantity p
      else (entry_price p - xp) * quantity p)"

subsection \<open>Entry\<close>

definition flatten_request :: "string \<Rightarrow> exchange_position \<Rightarrow> order_request" where
  "flatten_request s pos =
     \<lparr>req_symbol = s,
      req_side = (if positionAmt pos > 0 then SELL else BUY),
      req_quantity = \<bar>positionAmt pos\<bar>,
      req_type = MARKET, req_stopPrice = None, req_reduceOnly = True\<rparr>"

definition check_existing_position :: "client \<Rightarrow> string \<Rightarrow> unit action" where
  "check_existing_position cl s =
     and_then (call_get_position_risk cl) (\<lambda>ps.
       case find (\<lambda>p. ep_symbol p = s \<and> positionAmt p \<noteq> 0) ps of
         None \<Rightarrow> returns ()
       | Some existing \<Rightarrow>
           and_then (call_create_order cl (flatten_request s existing)) (\<lambda>_. returns ()))"

definition market_request :: "string \<Rightarrow> side \<Rightarrow> real \<Rightarrow> order_request" where
  "market_request s sd q =
     \<lparr>req_symbol = s, req_side = sd, req_quantity = q,
      req_type = MARKET, req_stopPrice = None, req_reduceOnly = False\<rparr>"

text \<open>The \<open>try\<close> body of \<open>_execute_market_order\<close>.\<close>

definition market_attempt :: "client \<Rightarrow> string \<Rightarrow> side \<Rightarrow> real \<Rightarrow> order action" where
  "market_attempt cl s sd q =
     and_then (call_create_order cl (market_request s sd q)) (\<lambda>ord.
       if executed ord > 0 then returns ord
       else and_then (call_get_order cl s (orderId ord)) (\<lambda>verified.
         if executed verified > 0 then returns verified
         else raises ''No execution confirmed''))"

text \<open>
  \<open>for attempt in range(3)\<close>: the list argument holds the attempts still to run.  A loop
  that runs out returns \<open>None\<close>.
\<close>

fun execute_market_order_loop ::
  "client \<Rightarrow> string \<Rightarrow> side \<Rightarrow> real \<Rightarrow> nat list \<Rightarrow> order option action" where
  "execute_market_order_loop cl s sd q [] w = (Inr None, w)"
| "execute_market_order_loop cl s sd q (attempt # rest) w =
     (case market_attempt cl s sd q w of
        (Inr ord, w') \<Rightarrow> (Inr (Some ord), w')
      | (Inl e, w') \<Rightarrow>
          if attempt = 2 then (Inl (''Order failed after retries: '' @ e), w')
          else execute_market_order_loop cl s sd q rest w')"

definition execute_market_order :: "client \<Rightarrow> string \<Rightarrow> side \<Rightarrow> real \<Rightarrow> order option action" where
  "execute_market_order cl s sd q = execute_market_order_loop cl s sd q [0, 1, 2]"

text \<open>
  \<open>_calculate_avg_fill_price\<close>, the second definition of that name in the class (the one
  Python keeps).  It catches every exception and answers \<open>None\<close>.
\<close>

definition calculate_avg_fill_price ::
  "client \<Rightarrow> order \<Rightarrow> order_manager \<Rightarrow> real option \<times> order_manager" where
  "calculate_avg_fill_price cl ord w =
     (let fs = or_default (fills ord) [];
          total_qty = sum_list (map fill_qty fs)
      in if fs \<noteq> [] \<and> total_qty > 0
         then (Some (sum_list (map (\<lambda>f. fill_price f * fill_qty f) fs) / total_qty), w)
         else if (case avgPrice ord of None \<Rightarrow> False | Some a \<Rightarrow> a > 0) then (avgPrice ord, w)
         else case call_get_position_risk cl w of
                (Inl e, w') \<Rightarrow> (None, w')
              | (Inr ps, w') \<Rightarrow>
                  (case order_symbol ord of
                     None \<Rightarrow> (None, w')
                   | Some s \<Rightarrow>
                       (case find (\<lambda>p. ep_symbol p = s) ps of
                          None \<Rightarrow> (None, w')
                        | Some pos \<Rightarrow>
                            if entryPrice pos > 0 then (Some (entryPrice pos), w')
                            else (None, w'))))"

subsection \<open>Bracket placement\<close>

text \<open>
  The price computation of \<open>_place_sl_tp_orders\<close> (the second definition, the one
  Python keeps): the stop-loss price before its rounding at the call, and the adjusted
  take-profits.
\<close>

definition guard_prices ::
  "side \<Rightarrow> real \<Rightarrow> nat \<Rightarrow> real \<Rightarrow> take_profit list \<Rightarrow> real \<times> take_profit list" where
  "guard_prices sd current_price price_precision sl_price tps =
     (let min_sl_diff = max (current_price * 0.0015) (current_price * 0.0005);
          min_tp_diff = max (current_price * 0.002) (current_price * 0.0005)
      in if sd = BUY
         then (max sl_price (current_price - min_sl_diff),
               map (\<lambda>tp. \<lparr>price = py_round (max (price tp) (current_price + min_tp_diff))
                                     price_precision,
                          percentage = percentage tp\<rparr>) tps)
         else (min sl_price (current_price + min_sl_diff),
               map (\<lambda>tp. \<lparr>price = py_round (min (price tp) (current_price - min_tp_diff))
                                     price_precision,
                          percentage = percentage tp\<rparr>) tps))"

definition sl_request :: "string \<Rightarrow> side \<Rightarrow> real \<Rightarrow> real \<Rightarrow> order_request" where
  "sl_request s sd q sl =
     \<lparr>req_symbol = s, req_side = opposite sd, req_quantity = q,
      req_type = STOP_MARKET, req_stopPrice = Some sl, req_reduceOnly = True\<rparr>"

definition tp_request :: "string \<Rightarrow> side \<Rightarrow> real \<Rightarrow> real \<Rightarrow> order_request" where
  "tp_request s sd q tpp =
     \<lparr>req_symbol = s, req_side = opposite sd, req_quantity = q,
      req_type = TAKE_PROFIT_MARKET, req_stopPrice = Some tpp, req_reduceOnly = True\<rparr>"

text \<open>\<open>for tp in take_profits: await self.client.create_order(...)\<close> of the retry loop.\<close>

fun place_take_profits ::
  "client \<Rightarrow> string \<Rightarrow> side \<Rightarrow> real \<Rightarrow> nat \<Rightarrow> take_profit list \<Rightarrow> unit action" where
  "place_take_profits cl s sd q prec [] w = (Inr (), w)"
| "place_take_profits cl s sd q prec (tp # tps) w =
     (case call_create_order cl
             (tp_request s sd (py_round (q * (percentage tp / 100)) prec) (price tp)) w of
        (Inl e, w') \<Rightarrow> (Inl e, w')
      | (Inr _, w') \<Rightarrow> place_take_profits cl s sd q prec tps w')"

text \<open>The \<open>try\<close> body of \<open>_place_orders_with_retry\<close>: one placement attempt.\<close>

definition bracket_attempt ::
  "client \<Rightarrow> string \<Rightarrow> side \<Rightarrow> real \<Rightarrow> nat \<Rightarrow> real \<Rightarrow> take_profit list \<Rightarrow> unit action" where
  "bracket_attempt cl s sd q prec sl tps =
     and_then (call_create_order cl (sl_request s sd (py_round q prec) sl))
       (\<lambda>_. place_take_profits cl s sd q prec tps)"

definition adjustment_factor :: "side \<Rightarrow> real" where
  "adjustment_factor sd = (if sd = BUY then 1.001 else 0.999)"

definition adjust_sl :: "side \<Rightarrow> nat \<Rightarrow> real \<Rightarrow> real" where
  "adjust_sl sd prec sl = py_round (sl * adjustment_factor sd) prec"

definition adjust_tps :: "side \<Rightarrow> nat \<Rightarrow> take_profit list \<Rightarrow> take_profit list" where
  "adjust_tps sd prec tps =
     map (\<lambda>tp. \<lparr>price = py_round (price tp * adjustment_factor sd) prec,
                percentage = percentage tp\<rparr>) tps"

text \<open>
  \<open>for attempt in range(max_retries)\<close> with the prices as loop variables; the list
  argument holds the attempts still to run.
\<close>

fun place_orders_loop ::
  "client \<Rightarrow> string \<Rightarrow> side \<Rightarrow> real \<Rightarrow> nat \<Rightarrow> nat \<Rightarrow> real \<Rightarrow> take_profit list \<Rightarrow> nat list
     \<Rightarrow> bool option action" where
  "place_orders_loop cl s sd q prec max_retries sl tps [] w = (Inr None, w)"
| "place_orders_loop cl s sd q prec max_retries sl tps (attempt # rest) w =
     (case bracket_attempt cl s sd q prec sl tps w of
        (Inr _, w') \<Rightarrow> (Inr (Some True), w')
      | (Inl e, w') \<Rightarrow>
          if int attempt = int max_retries - 1 then (Inl e, w')
          else place_orders_loop cl s sd q prec max_retries
                 (adjust_sl sd prec sl) (adjust_tps sd prec tps) rest w')"

definition place_orders_with_retry ::
  "client \<Rightarrow> string \<Rightarrow> side \<Rightarrow> real \<Rightarrow> real \<Rightarrow> take_profit list \<Rightarrow> nat \<Rightarrow> nat
     \<Rightarrow> bool option action" where
  "place_orders_with_retry cl s sd q sl tps prec max_retries =
     place_orders_loop cl s sd q prec max_retries sl tps [0..<max_retries]"

text \<open>
  \<open>_place_sl_tp_orders\<close> as Python runs it: the class defines the name twice and the
  second definition replaces the first.  Its \<open>except\<close> clause logs and raises again.
\<close>

definition place_sl_tp_orders ::
  "client \<Rightarrow> string \<Rightarrow> side \<Rightarrow> real \<Rightarrow> real \<Rightarrow> real \<Rightarrow> take_profit list \<Rightarrow> bool action" where
  "place_sl_tp_orders cl s sd q entry sl_price tps =
     and_then (last_close cl s) (\<lambda>current_price.
       and_then (call_get_precision cl s) (\<lambda>price_precision.
         and_then
           (place_orders_with_retry cl s sd q
              (py_round (fst (guard_prices sd current_price price_precision sl_price tps))
                 price_precision)
              (snd (guard_prices sd current_price price_precision sl_price tps))
              price_precision 3)
           (\<lambda>_. returns True)))"

text \<open>
  The first definition of \<open>_place_sl_tp_orders\<close>, which the second one replaces: it places the orders as proposed and then counts the open orders.
\<close>

fun place_take_profits_first ::
  "client \<Rightarrow> string \<Rightarrow> side \<Rightarrow> real \<Rightarrow> take_profit list \<Rightarrow> unit action" where
  "place_take_profits_first cl s sd q [] w = (Inr (), w)"
| "place_take_profits_first cl s sd q (tp # tps) w =
     (case call_create_order cl (tp_request s sd (q * (percentage tp / 100)) (price tp)) w of
        (Inl e, w') \<Rightarrow> (Inl e, w')
      | (Inr _, w') \<Rightarrow> place_take_profits_first cl s sd q tps w')"

definition place_sl_tp_orders_first ::
  "client \<Rightarrow> string \<Rightarrow> side \<Rightarrow> real \<Rightarrow> real \<Rightarrow> real \<Rightarrow> take_profit list \<Rightarrow> unit action" where
  "place_sl_tp_orders_first cl s sd q entry sl_price tps =
     and_then (call_create_order cl (sl_request s sd q sl_price)) (\<lambda>_.
       and_then (place_take_profits_first cl s sd q tps) (\<lambda>_.
         and_then (call_get_open_orders cl s) (\<lambda>open_orders.
           if length open_orders < length tps + 1
           then raises ''Not all SL/TP orders were placed''
           else returns ())))"

subsection \<open>\<open>place_order\<close>\<close>

definition record_position :: "signal \<Rightarrow> order \<Rightarrow> real \<Rightarrow> real \<Rightarrow> order_manager \<Rightarrow> order_manager" where
  "record_position sg ord avg_price now w =
     w\<lparr>position_tracker :=
         add_position (position_tracker w)
           \<lparr>symbol = sig_symbol sg, pside = sig_side sg, quantity = executed ord,
            entry_price = avg_price, leverage = None, entry_time = now,
            stop_loss = Some (sig_stop_loss sg), take_profits = sig_take_profits sg,
            exit_price = None, exit_time = None, exit_reason = None, pnl = None\<rparr>\<rparr>"

definition send_trade_alert :: "signal \<Rightarrow> real \<Rightarrow> order_manager \<Rightarrow> order_manager" where
  "send_trade_alert sg avg_price w = issue (Notify (TradeAlert sg avg_price)) w"

text \<open>
  \<open>_handle_failure\<close>: cancel the symbol's orders and flatten what is left of the
  position; an exception in this cleanup is logged and dropped; then notify.
\<close>

definition cleanup :: "client \<Rightarrow> string \<Rightarrow> unit action" where
  "cleanup cl s =
     and_then (call_cancel_all_orders cl s) (\<lambda>_.
       and_then (call_get_position_risk cl) (\<lambda>ps.
         case find (\<lambda>p. ep_symbol p = s \<and> positionAmt p \<noteq> 0) ps of
           None \<Rightarrow> returns ()
         | Some pos \<Rightarrow> and_then (call_create_order cl (flatten_request s pos)) (\<lambda>_. returns ())))"

definition handle_failure :: "client \<Rightarrow> string \<Rightarrow> string \<Rightarrow> order_manager \<Rightarrow> order_manager" where
  "handle_failure cl s error w = issue (Notify (OrderFailed s error)) (snd (cleanup cl s w))"

text \<open>Steps 4 to 6 of \<open>place_order\<close>, after the entry order \<open>ord\<close> has filled.\<close>

definition fill_price_or_market :: "client \<Rightarrow> string \<Rightarrow> order \<Rightarrow> real action" where
  "fill_price_or_market cl s ord w =
     (case calculate_avg_fill_price cl ord w of
        (None, w') \<Rightarrow> last_close cl s w'
      | (Some p, w') \<Rightarrow> if p = 0 then last_close cl s w' else (Inr p, w'))"

definition protect_and_record :: "client \<Rightarrow> signal \<Rightarrow> real \<Rightarrow> order \<Rightarrow> order action" where
  "protect_and_record cl sg now ord =
     and_then (fill_price_or_market cl (sig_symbol sg) ord) (\<lambda>avg_price.
       and_then
         (place_sl_tp_orders cl (sig_symbol sg) (sig_side sg) (executed ord) avg_price
            (sig_stop_loss sg) (sig_take_profits sg))
         (\<lambda>_ w. (Inr ord, send_trade_alert sg avg_price (record_position sg ord avg_price now w))))"

text \<open>The \<open>try\<close> body of \<open>place_order\<close>.\<close>

definition place_order_body :: "client \<Rightarrow> signal \<Rightarrow> real \<Rightarrow> order action" where
  "place_order_body cl sg now =
     and_then (check_existing_position cl (sig_symbol sg)) (\<lambda>_.
       and_then (execute_market_order cl (sig_symbol sg) (sig_side sg) (size sg)) (\<lambda>filled.
         case filled of
           None \<Rightarrow> raises ''Order not filled''
         | Some ord \<Rightarrow>
             if executed ord \<le> 0 then raises ''Order not filled''
             else protect_and_record cl sg now ord))"

definition trigger_phrase :: string where
  "trigger_phrase = ''Order would immediately trigger''"

text \<open>
  \<open>place_order(signal)\<close>: \<open>Inr (Some order)\<close> is the filled order, \<open>Inr None\<close> is the
  \<open>return None\<close> of the \<open>except\<close> clause, \<open>Inl e\<close> is the exception raised again.
\<close>

definition place_order :: "client \<Rightarrow> signal \<Rightarrow> real \<Rightarrow> order option action" where
  "place_order cl sg now w =
     (case place_order_body cl sg now w of
        (Inr ord, w') \<Rightarrow> (Inr (Some ord), w')
      | (Inl e, w') \<Rightarrow>
          if is_substring trigger_phrase e then (Inr None, w')
          else (Inl e, handle_failure cl (sig_symbol sg) e w'))"

subsection \<open>\<open>close_position\<close> of the order manager\<close>

definition close_request :: "string \<Rightarrow> position \<Rightarrow> order_request" where
  "close_request s p =
     \<lparr>req_symbol = s, req_side = opposite (pside p), req_quantity = quantity p,
      req_type = MARKET, req_stopPrice = None, req_reduceOnly = False\<rparr>"

text \<open>
  What follows \<open>if result:\<close> (an order answer is a non-empty dict).  Reading \<open>self.risk_manager\<close> raises \<open>AttributeError\<close>
  when the attribute was never set.
\<close>

definition after_close ::
  "string \<Rightarrow> string \<Rightarrow> real \<Rightarrow> real \<Rightarrow> real \<Rightarrow> order \<Rightarrow> order action" where
  "after_close s reason now current_price v result w =
     (case risk_manager w of
        None \<Rightarrow> (Inl ''OrderManager object has no attribute risk_manager'', w)
      | Some rm \<Rightarrow>
          (Inr result,
           issue (Notify (PositionClosed s reason v))
             (w\<lparr>risk_manager :=
                  Some (rm\<lparr>position_strengths :=
                             filter (\<lambda>kv. fst kv \<noteq> s) (position_strengths rm)\<rparr>),
                position_tracker :=
                  close_position (position_tracker w) s current_price now reason v,
                active_orders := filter (\<lambda>k. k \<noteq> s) (active_orders w)\<rparr>)))"

definition close_position_body ::
  "client \<Rightarrow> string \<Rightarrow> string \<Rightarrow> real \<Rightarrow> position \<Rightarrow> order action" where
  "close_position_body cl s reason now p =
     and_then (last_close cl s) (\<lambda>current_price.
       and_then (call_create_order cl (close_request s p)) (\<lambda>result.
         after_close s reason now current_price (calculate_pnl p current_price) result))"

text \<open>
  \<open>OrderManager.close_position(symbol, reason)\<close>; the ledger's operation of the same
  name is \<open>close_position\<close> above.  \<open>None\<close> is the \<open>return None\<close> of an untracked symbol
  and of the \<open>except\<close> clause.
\<close>

definition om_close_position ::
  "client \<Rightarrow> string \<Rightarrow> string \<Rightarrow> real \<Rightarrow> order_manager \<Rightarrow> order option \<times> order_manager" where
  "om_close_position cl s reason now w =
     (case get_position (position_tracker w) s of
        None \<Rightarrow> (None, w)
      | Some p \<Rightarrow>
          (case close_position_body cl s reason now p w of
             (Inr result, w') \<Rightarrow> (Some result, w')
           | (Inl e, w') \<Rightarrow> (None, issue (Notify (CloseFailed s e)) w')))"

subsection \<open>Observations on the calls issued\<close>

fun is_cancel :: "call \<Rightarrow> bool" where
  "is_cancel (CancelAllOrders s) = True"
| "is_cancel _ = False"

fun is_failure_alert :: "call \<Rightarrow> bool" where
  "is_failure_alert (Notify (OrderFailed s e)) = True"
| "is_failure_alert _ = False"

fun is_market_order :: "call \<Rightarrow> bool" where
  "is_market_order (CreateOrder r) = (req_type r = MARKET)"
| "is_market_order _ = False"

fun is_open_orders_query :: "call \<Rightarrow> bool" where
  "is_open_orders_query (GetOpenOrders s) = True"
| "is_open_orders_query _ = False"

fun stop_loss_price :: "call \<Rightarrow> real option" where
  "stop_loss_price (CreateOrder r) = (if req_type r = STOP_MARKET then req_stopPrice r else None)"
| "stop_loss_price _ = None"

text \<open>The stop prices of the stop-loss orders among some calls, in order.\<close>

definition stop_loss_prices :: "call list \<Rightarrow> real list" where
  "stop_loss_prices cs = List.map_filter stop_loss_price cs"

text \<open>
  \<open>only_calls P m\<close>: the action \<open>m\<close> changes nothing but the trace, to which it
  appends calls that satisfy \<open>P\<close>.  \<open>emits P m\<close>: it appends calls that satisfy \<open>P\<close>
  to the trace, and may change the rest of the state.
\<close>

definition only_calls :: "(call \<Rightarrow> bool) \<Rightarrow> 'a action \<Rightarrow> bool" where
  "only_calls P m =
     (\<forall>w r w'. m w = (r, w') \<longrightarrow> (\<exists>new. w' = w\<lparr>trace := trace w @ new\<rparr> \<and> list_all P new))"

definition emits :: "(call \<Rightarrow> bool) \<Rightarrow> 'a action \<Rightarrow> bool" where
  "emits P m =
     (\<forall>w r w'. m w = (r, w') \<longrightarrow> (\<exists>new. trace w' = trace w @ new \<and> list_all P new))"

section \<open>Concrete inputs\<close>

definition demo_x :: position where
  "demo_x =
     \<lparr>symbol = ''X'', pside = BUY, quantity = 2, entry_price = 100, leverage = None,
      entry_time = 1, stop_loss = Some 95, take_profits = [\<lparr>price = 110, percentage = 50\<rparr>],
      exit_price = None, exit_time = None, exit_reason = None, pnl = None\<rparr>"

definition demo_y :: position where
  "demo_y =
     \<lparr>symbol = ''Y'', pside = SELL, quantity = 2, entry_price = 100, leverage = None,
      entry_time = 2, stop_loss = Some 105, take_profits = [],
      exit_price = None, exit_time = None, exit_reason = None, pnl = None\<rparr>"

definition demo_ledger :: position_tracker where
  "demo_ledger = add_position (add_position new_tracker demo_x) demo_y"

definition snapshot_entry :: "string \<Rightarrow> real \<Rightarrow> real \<Rightarrow> real \<Rightarrow> exchange_position" where
  "snapshot_entry s amt mark upnl =
     \<lparr>ep_symbol = s, positionAmt = amt, entryPrice = 50, markPrice = mark, ep_leverage = 10,
      unrealizedProfit = upnl\<rparr>"

text \<open>\<open>X\<close> is missing, \<open>Y\<close> is reported at amount zero, \<open>Z\<close> is new.\<close>

definition demo_snapshot :: "exchange_position list" where
  "demo_snapshot = [snapshot_entry ''Y'' 0 5 1, snapshot_entry ''Z'' 3 51 4]"

text \<open>
  A snapshot as the exchange reports it in hedge mode, one entry per position side:
  \<open>X\<close> is missing, \<open>Y\<close> has an empty long side and an open short side.
\<close>

definition hedge_snapshot :: "exchange_position list" where
  "hedge_snapshot = [snapshot_entry ''Y'' 0 5 1, snapshot_entry ''Y'' (-3) 5 (-2)]"

text \<open>
  One position allowed, one open (\<open>ETHUSDT\<close>, tracked at strength 0.40), and
  \<open>BTCUSDT\<close> last traded at time 1000.
\<close>

definition demo_config :: config where
  "demo_config =
     \<lparr>min_signal_strength = None, max_daily_loss = None,
      max_concurrent_positions = Some 1, trade_cooldown_sec = None\<rparr>"

definition demo_risk :: risk_management where
  "demo_risk =
     \<lparr>last_trade_time = (\<lambda>s. if s = ''BTCUSDT'' then Some 1000 else None),
      daily_pnl = 0, daily_start_time = 0,
      position_strengths = [(''ETHUSDT'', 0.40)]\<rparr>"

definition demo_open :: "exchange_position list" where
  "demo_open = [snapshot_entry ''ETHUSDT'' 1 2000 0]"

text \<open>A \<open>BTCUSDT\<close> buy signal of the given strength and ATR at price 100.\<close>

definition demo_signal :: "real \<Rightarrow> real \<Rightarrow> signal" where
  "demo_signal st a =
     \<lparr>sig_symbol = ''BTCUSDT'', sig_side = BUY, sig_price = Some 100, size = 1,
      sig_stop_loss = 9997 / 100, sig_take_profits = [],
      strength = Some st, atr = Some a\<rparr>"

text \<open>
  An exchange with no open position, price 100 and precision 2, that fills every market
  order in full.  It answers the other order types with \<open>bracket\<close>, and reports no
  open order.
\<close>

definition demo_order :: order where
  "demo_order =
     \<lparr>orderId = 1, order_symbol = Some ''BTCUSDT'', executedQty = Some 1,
      avgPrice = Some 100, fills = Some [\<lparr>fill_price = 100, fill_qty = 1\<rparr>]\<rparr>"

definition demo_client :: "(order_request \<Rightarrow> string + order) \<Rightarrow> client" where
  "demo_client bracket =
     \<lparr>get_position_risk = (\<lambda>h. Inr []),
      create_order = (\<lambda>h r. if req_type r = MARKET then Inr demo_order else bracket r),
      get_order = (\<lambda>h s i. Inr demo_order),
      get_klines = (\<lambda>h s. Inr [100]),
      get_precision = (\<lambda>h s. Inr 2),
      cancel_all_orders = (\<lambda>h s. Inr ()),
      get_open_orders = (\<lambda>h s. Inr [])\<rparr>"

definition accepting :: "order_request \<Rightarrow> string + order" where
  "accepting r = Inr (demo_order\<lparr>executedQty := Some 0\<rparr>)"

definition stale :: "order_request \<Rightarrow> string + order" where
  "stale r = Inl ''API Error 400: Order would immediately trigger.''"

definition rejecting :: "order_request \<Rightarrow> string + order" where
  "rejecting r = Inl ''API Error 400: Margin is insufficient.''"

text \<open>Accepts a stop-loss order and answers a take-profit order with the trigger error.\<close>

definition stale_target :: "order_request \<Rightarrow> string + order" where
  "stale_target r =
     (if req_type r = TAKE_PROFIT_MARKET
      then Inl ''API Error 400: Order would immediately trigger.''
      else Inr (demo_order\<lparr>executedQty := Some 0\<rparr>))"

section \<open>Ledger: uniqueness and closing\<close>

lemmas demo_defs = demo_x_def demo_y_def demo_ledger_def snapshot_entry_def demo_snapshot_def
  hedge_snapshot_def new_tracker_def add_position_def tracked_def get_position_def
  close_position_def close_record_def get_closed_positions_def get_all_positions_def
  sync_close_one_def sync_add_one_def sync_positions_def sync_with_exchange_def adopted_def

lemma wf_new: "wf_tracker new_tracker"
  by (simp add: wf_tracker_def new_tracker_def)

lemma wf_add: "wf_tracker tr \<Longrightarrow> wf_tracker (add_position tr p)"
  by (auto simp: wf_tracker_def add_position_def tracked_def)

lemma wf_close: "wf_tracker tr \<Longrightarrow> wf_tracker (close_position tr s xp now reason v)"
  by (auto simp: wf_tracker_def close_position_def distinct_map_filter split: option.splits)

lemma wf_sync_close_one: "wf_tracker tr \<Longrightarrow> wf_tracker (sync_close_one xs now tr s)"
  by (simp add: sync_close_one_def wf_close split: option.splits)

lemma wf_sync_add_one: "wf_tracker tr \<Longrightarrow> wf_tracker (sync_add_one now tr pos)"
  by (simp add: sync_add_one_def wf_add)

lemma wf_foldl_close: "wf_tracker tr \<Longrightarrow> wf_tracker (foldl (sync_close_one xs now) tr ks)"
  by (induction ks arbitrary: tr) (simp_all add: wf_sync_close_one)

lemma wf_foldl_add: "wf_tracker tr \<Longrightarrow> wf_tracker (foldl (sync_add_one now) tr ys)"
  by (induction ys arbitrary: tr) (simp_all add: wf_sync_add_one)

lemma wf_sync: "wf_tracker tr \<Longrightarrow> wf_tracker (sync_positions tr xs now)"
  by (simp add: sync_positions_def wf_foldl_close wf_foldl_add)

lemma reachable_wf: "reachable tr \<Longrightarrow> wf_tracker tr"
  by (induction rule: reachable.induct) (simp_all add: wf_new wf_add wf_close wf_sync)

lemma distinct_key_filter:
  "distinct (map fst kvs) \<Longrightarrow> length (filter (\<lambda>kv. fst kv = s) kvs) \<le> 1"
  by (induction kvs) (auto simp: filter_empty_conv image_iff)

lemma filter_symbol_key:
  "\<forall>kv \<in> set kvs. symbol (snd kv) = fst kv \<Longrightarrow>
   filter (\<lambda>p. symbol p = s) (map snd kvs) = map snd (filter (\<lambda>kv. fst kv = s) kvs)"
  by (induction kvs) auto

lemma wf_at_most_one:
  assumes "wf_tracker tr"
  shows "length (filter (\<lambda>p. symbol p = s) (get_all_positions tr)) \<le> 1"
proof -
  from assms have d: "distinct (map fst (positions tr))"
    and k: "\<forall>kv \<in> set (positions tr). symbol (snd kv) = fst kv"
    by (simp_all add: wf_tracker_def)
  show ?thesis
    using distinct_key_filter[OF d, of s] filter_symbol_key[OF k, of s]
    by (simp add: get_all_positions_def)
qed

lemma close_untracks: "\<not> tracked (close_position tr s xp now reason v) s"
  by (auto simp: close_position_def tracked_def map_of_eq_None_iff split: option.splits)

lemma close_get_same: "get_position (close_position tr s xp now reason v) s = None"
  using close_untracks[of tr s xp now reason v]
  by (simp add: get_position_def tracked_def map_of_eq_None_iff)

lemma map_of_filter_other:
  "s' \<noteq> s \<Longrightarrow> map_of (filter (\<lambda>kv. fst kv \<noteq> s) kvs) s' = map_of kvs s'"
  by (induction kvs) auto

lemma close_get_other:
  "s' \<noteq> s \<Longrightarrow> get_position (close_position tr s xp now reason v) s' = get_position tr s'"
  by (simp add: get_position_def close_position_def map_of_filter_other split: option.splits)

lemma close_history:
  "get_position tr s = Some q \<Longrightarrow>
   get_closed_positions (close_position tr s xp now reason v)
     = get_closed_positions tr @ [close_record q xp now reason v]"
  by (simp add: get_position_def get_closed_positions_def close_position_def)

text \<open>
  Claim C9.  In every reachable ledger at most one open position has a given symbol;
  adding a position whose symbol is tracked returns the ledger unchanged; closing a
  tracked symbol removes it from the open positions, leaves the other symbols as they
  were, and appends exactly one record to the closed history: the position with
  \<open>exit_price\<close>, \<open>exit_time\<close>, \<open>exit_reason\<close> and \<open>pnl\<close> set.
\<close>

theorem ledger_unique_no_overwrite:
  assumes "reachable tr"
  shows "length (filter (\<lambda>p. symbol p = s) (get_all_positions tr)) \<le> 1
    \<and> (tracked tr (symbol p) \<longrightarrow> add_position tr p = tr)
    \<and> (\<forall>q. get_position tr s = Some q \<longrightarrow>
          get_position (close_position tr s xp now reason v) s = None
        \<and> (\<forall>s'. s' \<noteq> s \<longrightarrow>
              get_position (close_position tr s xp now reason v) s' = get_position tr s')
        \<and> get_closed_positions (close_position tr s xp now reason v)
            = get_closed_positions tr
              @ [q\<lparr>exit_price := Some xp, exit_time := Some now,
                   exit_reason := Some reason, pnl := Some v\<rparr>])"
proof -
  have "length (filter (\<lambda>p. symbol p = s) (get_all_positions tr)) \<le> 1"
    using assms by (intro wf_at_most_one reachable_wf)
  moreover have "tracked tr (symbol p) \<longrightarrow> add_position tr p = tr"
    by (simp add: add_position_def)
  ultimately show ?thesis
    using close_history[of tr s _ xp now reason v]
    by (simp add: close_get_same close_get_other close_record_def)
qed


text \<open>
  The theorem of C9 at the ledger holding \<open>X\<close> and \<open>Y\<close>: a second \<open>X\<close> is refused,
  and closing \<open>X\<close> moves it to the history.
\<close>

theorem ledger_unique_no_overwrite_witness:
  "reachable demo_ledger
   \<and> length (filter (\<lambda>p. symbol p = ''X'') (get_all_positions demo_ledger)) \<le> 1
   \<and> tracked demo_ledger (symbol (demo_x\<lparr>quantity := 9\<rparr>))
   \<and> add_position demo_ledger (demo_x\<lparr>quantity := 9\<rparr>) = demo_ledger
   \<and> get_position demo_ledger ''X'' = Some demo_x
   \<and> get_position (close_position demo_ledger ''X'' 110 7 ''manual'' 20) ''X'' = None
   \<and> get_position (close_position demo_ledger ''X'' 110 7 ''manual'' 20) ''Y'' = Some demo_y
   \<and> get_closed_positions (close_position demo_ledger ''X'' 110 7 ''manual'' 20)
       = [demo_x\<lparr>exit_price := Some 110, exit_time := Some 7,
                 exit_reason := Some ''manual'', pnl := Some 20\<rparr>]"
proof -
  have r: "reachable demo_ledger"
    unfolding demo_ledger_def by (intro r_add r_init)
  have t: "tracked demo_ledger (symbol (demo_x\<lparr>quantity := 9\<rparr>))"
    by (simp add: demo_defs)
  have g: "get_position demo_ledger ''X'' = Some demo_x"
    by (simp add: demo_defs)
  have y: "get_position demo_ledger ''Y'' = Some demo_y"
    by (simp add: demo_defs)
  have c: "get_closed_positions demo_ledger = []"
    by (simp add: demo_defs)
  from ledger_unique_no_overwrite[OF r, of "''X''" "demo_x\<lparr>quantity := 9\<rparr>" 110 7 "''manual''" 20]
  show ?thesis using r t g y c by simp
qed

section \<open>Reconciliation\<close>

lemma sync_close_one_other:
  "s \<noteq> k \<Longrightarrow> get_position (sync_close_one xs now tr k) s = get_position tr s"
  by (simp add: sync_close_one_def close_get_other split: option.splits)

lemma sync_close_one_None:
  "get_position tr s = None \<Longrightarrow> get_position (sync_close_one xs now tr k) s = None"
  by (cases "s = k")
     (auto simp: sync_close_one_def close_get_same close_get_other split: option.splits)

lemma sync_close_one_mono:
  "set (closed_positions tr) \<subseteq> set (closed_positions (sync_close_one xs now tr k))"
  by (auto simp: sync_close_one_def close_position_def split: option.splits)

lemma foldl_close_mono:
  "set (closed_positions tr) \<subseteq> set (closed_positions (foldl (sync_close_one xs now) tr ks))"
proof (induction ks arbitrary: tr)
  case Nil
  show ?case by simp
next
  case (Cons k ks)
  show ?case
    using sync_close_one_mono[of tr xs now k] Cons[of "sync_close_one xs now tr k"] by auto
qed

lemma foldl_close_None:
  "get_position tr s = None \<Longrightarrow> get_position (foldl (sync_close_one xs now) tr ks) s = None"
  by (induction ks arbitrary: tr) (simp_all add: sync_close_one_None)

lemma foldl_close_gone:
  assumes closes: "\<And>t. sync_close_one xs now t s = close_position t s xp now reason v"
  shows "s \<in> set ks \<Longrightarrow> get_position tr s = Some p \<Longrightarrow>
     get_position (foldl (sync_close_one xs now) tr ks) s = None
     \<and> close_record p xp now reason v
         \<in> set (closed_positions (foldl (sync_close_one xs now) tr ks))"
proof (induction ks arbitrary: tr)
  case Nil
  then show ?case by simp
next
  case (Cons k ks)
  show ?case
  proof (cases "k = s")
    case True
    let ?t = "close_position tr s xp now reason v"
    have g: "get_position ?t s = None" by (rule close_get_same)
    have "close_record p xp now reason v \<in> set (closed_positions ?t)"
      using Cons.prems(2) close_history[of tr s p xp now reason v]
      by (simp add: get_closed_positions_def)
    then have "close_record p xp now reason v
        \<in> set (closed_positions (foldl (sync_close_one xs now) ?t ks))"
      using foldl_close_mono[of ?t xs now ks] by blast
    with g True show ?thesis by (simp add: closes foldl_close_None)
  next
    case False
    then have "s \<in> set ks" using Cons.prems(1) by simp
    moreover have "get_position (sync_close_one xs now tr k) s = Some p"
      using False Cons.prems(2) by (simp add: sync_close_one_other)
    ultimately show ?thesis using Cons.IH by simp
  qed
qed

lemma tracked_get: "tracked tr s \<longleftrightarrow> get_position tr s \<noteq> None"
  by (simp add: tracked_def get_position_def map_of_eq_None_iff)

lemma sync_add_one_get:
  "get_position (sync_add_one now tr e) s =
     (case get_position tr s of
        Some p \<Rightarrow> Some p
      | None \<Rightarrow> if ep_symbol e = s \<and> positionAmt e \<noteq> 0 then Some (adopted e now) else None)"
proof (cases "positionAmt e \<noteq> 0 \<and> \<not> tracked tr (ep_symbol e)")
  case True
  then have n: "map_of (positions tr) (ep_symbol e) = None"
    by (simp add: tracked_get get_position_def)
  have "symbol (adopted e now) = ep_symbol e" by (simp add: adopted_def)
  with True n show ?thesis
    by (auto simp: sync_add_one_def add_position_def get_position_def map_add_def
             split: option.splits)
next
  case False
  then show ?thesis
    by (auto simp: sync_add_one_def tracked_get split: option.splits)
qed

lemma foldl_add_get:
  "get_position (foldl (sync_add_one now) tr xs) s =
     (case get_position tr s of
        Some p \<Rightarrow> Some p
      | None \<Rightarrow> map_option (\<lambda>e. adopted e now)
                 (find (\<lambda>e. ep_symbol e = s \<and> positionAmt e \<noteq> 0) xs))"
  by (induction xs arbitrary: tr) (auto simp: sync_add_one_get split: option.splits)

lemma foldl_add_closed:
  "closed_positions (foldl (sync_add_one now) tr xs) = closed_positions tr"
  by (induction xs arbitrary: tr) (simp_all add: sync_add_one_def add_position_def)

lemma sync_gone:
  assumes closes: "\<And>t. sync_close_one xs now t s = close_position t s xp now reason v"
    and got: "get_position tr s = Some p"
  shows "close_record p xp now reason v \<in> set (get_closed_positions (sync_positions tr xs now))
    \<and> get_position (sync_positions tr xs now) s
        = map_option (\<lambda>e. adopted e now)
            (find (\<lambda>e. ep_symbol e = s \<and> positionAmt e \<noteq> 0) xs)"
proof -
  have "s \<in> set (map fst (positions tr))"
    using got by (simp add: get_position_def) (metis map_of_eq_None_iff option.distinct(1) set_map)
  from foldl_close_gone[of xs now s xp reason v, OF closes this got]
  show ?thesis
    by (simp add: sync_positions_def get_closed_positions_def foldl_add_closed foldl_add_get)
qed

lemma find_None_weaken:
  "find (\<lambda>e. ep_symbol e = s) xs = None \<Longrightarrow>
   find (\<lambda>e. ep_symbol e = s \<and> positionAmt e \<noteq> 0) xs = None"
  by (auto simp: find_None_iff)

lemma sync_adopts:
  assumes "e \<in> set xs" "positionAmt e \<noteq> 0" "\<not> tracked tr (ep_symbol e)"
  shows "\<exists>q. get_position (sync_positions tr xs now) (ep_symbol e) = Some q
    \<and> stop_loss q = None \<and> take_profits q = []"
proof -
  let ?s = "ep_symbol e"
  have "get_position tr ?s = None" using assms(3) by (simp add: tracked_get)
  then have n: "get_position (foldl (sync_close_one xs now) tr (map fst (positions tr))) ?s = None"
    by (rule foldl_close_None)
  obtain e' where "find (\<lambda>x. ep_symbol x = ?s \<and> positionAmt x \<noteq> 0) xs = Some e'"
    using assms(1,2) by (cases "find (\<lambda>x. ep_symbol x = ?s \<and> positionAmt x \<noteq> 0) xs")
      (auto simp: find_None_iff)
  with n show ?thesis
    by (simp add: sync_positions_def foldl_add_get adopted_def)
qed

text \<open>
  Claim C8, as amended.  After reconciliation with a snapshot, every tracked symbol whose
  first snapshot entry is missing or has amount zero has a record in the closed history
  with reason \<open>external_close\<close>: with exit price 0 and pnl 0 when the symbol is
  missing from the snapshot, with that entry's mark price and unrealized profit when it
  is reported at zero.  A missing symbol is no longer open; a zeroed symbol is open
  afterwards exactly when a later snapshot entry of the same symbol has a nonzero amount,
  and then as the position adopted from that entry.  Every snapshot entry with a nonzero
  amount whose symbol was not tracked leaves its symbol open with \<open>stop_loss\<close> unset
  and no take-profits.
\<close>

theorem sync_with_exchange_reconciles:
  assumes "sync_with_exchange tr (Inr xs) now = Inr tr'"
  shows "(\<forall>s p. get_position tr s = Some p \<longrightarrow>
           (case find (\<lambda>e. ep_symbol e = s) xs of
              None \<Rightarrow>
                get_position tr' s = None
                \<and> close_record p 0 now ''external_close'' 0 \<in> set (get_closed_positions tr')
            | Some e \<Rightarrow>
                positionAmt e = 0 \<longrightarrow>
                close_record p (markPrice e) now ''external_close'' (unrealizedProfit e)
                  \<in> set (get_closed_positions tr')
                \<and> get_position tr' s
                    = map_option (\<lambda>e. adopted e now)
                        (find (\<lambda>e. ep_symbol e = s \<and> positionAmt e \<noteq> 0) xs)))
    \<and> (\<forall>e \<in> set xs. positionAmt e \<noteq> 0 \<and> \<not> tracked tr (ep_symbol e) \<longrightarrow>
          (\<exists>q. get_position tr' (ep_symbol e) = Some q
             \<and> stop_loss q = None \<and> take_profits q = []))"
proof -
  have tr': "tr' = sync_positions tr xs now"
    using assms by (simp add: sync_with_exchange_def)
  have a: "get_position tr' s = None
      \<and> close_record p 0 now ''external_close'' 0 \<in> set (get_closed_positions tr')"
    if "get_position tr s = Some p" "find (\<lambda>e. ep_symbol e = s) xs = None" for s p
    using sync_gone[of xs now s 0 "''external_close''" 0 tr p] that
    by (simp add: tr' sync_close_one_def find_None_weaken)
  have b: "close_record p (markPrice e) now ''external_close'' (unrealizedProfit e)
        \<in> set (get_closed_positions tr')
      \<and> get_position tr' s
          = map_option (\<lambda>e. adopted e now)
              (find (\<lambda>e. ep_symbol e = s \<and> positionAmt e \<noteq> 0) xs)"
    if "get_position tr s = Some p" "find (\<lambda>e. ep_symbol e = s) xs = Some e"
       "positionAmt e = 0" for s p e
    using sync_gone[of xs now s "markPrice e" "''external_close''" "unrealizedProfit e" tr p] that
    by (simp add: tr' sync_close_one_def)
  have c: "\<exists>q. get_position tr' (ep_symbol e) = Some q
      \<and> stop_loss q = None \<and> take_profits q = []"
    if "e \<in> set xs" "positionAmt e \<noteq> 0" "\<not> tracked tr (ep_symbol e)" for e
    using sync_adopts[OF that] by (simp add: tr')
  show ?thesis
    using a b c by (auto split: option.splits)
qed

text \<open>
  Claim C8 as stated fails.  \<open>X\<close> is tracked and missing from the snapshot, so no mark
  price or unrealized profit is reported for it: it is recorded with exit price 0 and
  pnl 0.  \<open>Y\<close> is tracked and its snapshot entry has amount zero, yet \<open>Y\<close> is open after
  reconciliation, adopted again from the later entry.
\<close>

theorem sync_with_exchange_counterexample:
  "sync_with_exchange demo_ledger (Inr hedge_snapshot) 7
     = Inr (sync_positions demo_ledger hedge_snapshot 7)
   \<and> tracked demo_ledger ''X''
   \<and> find (\<lambda>e. ep_symbol e = ''X'') hedge_snapshot = None
   \<and> tracked demo_ledger ''Y''
   \<and> map_option positionAmt (find (\<lambda>e. ep_symbol e = ''Y'') hedge_snapshot) = Some 0
   \<and> map symbol (get_closed_positions (sync_positions demo_ledger hedge_snapshot 7)) = [''X'', ''Y'']
   \<and> map exit_price (get_closed_positions (sync_positions demo_ledger hedge_snapshot 7))
       = [Some 0, Some 5]
   \<and> map pnl (get_closed_positions (sync_positions demo_ledger hedge_snapshot 7))
       = [Some 0, Some 1]
   \<and> tracked (sync_positions demo_ledger hedge_snapshot 7) ''Y''"
  by (simp add: demo_defs)

text \<open>
  The theorem of C8 at a snapshot where \<open>X\<close> is missing, \<open>Y\<close> is zeroed and \<open>Z\<close> is
  new.
\<close>

theorem sync_with_exchange_reconciles_witness:
  "sync_with_exchange demo_ledger (Inr demo_snapshot) 7
     = Inr (sync_positions demo_ledger demo_snapshot 7)
   \<and> get_position demo_ledger ''X'' = Some demo_x
   \<and> find (\<lambda>e. ep_symbol e = ''X'') demo_snapshot = None
   \<and> get_position (sync_positions demo_ledger demo_snapshot 7) ''X'' = None
   \<and> close_record demo_x 0 7 ''external_close'' 0
       \<in> set (get_closed_positions (sync_positions demo_ledger demo_snapshot 7))
   \<and> get_position demo_ledger ''Y'' = Some demo_y
   \<and> find (\<lambda>e. ep_symbol e = ''Y'') demo_snapshot = Some (snapshot_entry ''Y'' 0 5 1)
   \<and> close_record demo_y 5 7 ''external_close'' 1
       \<in> set (get_closed_positions (sync_positions demo_ledger demo_snapshot 7))
   \<and> get_position (sync_positions demo_ledger demo_snapshot 7) ''Y'' = None
   \<and> snapshot_entry ''Z'' 3 51 4 \<in> set demo_snapshot
   \<and> \<not> tracked demo_ledger ''Z''
   \<and> (\<exists>q. get_position (sync_positions demo_ledger demo_snapshot 7) ''Z'' = Some q
         \<and> stop_loss q = None \<and> take_profits q = [])"
proof -
  let ?tr' = "sync_positions demo_ledger demo_snapshot 7"
  have h: "sync_with_exchange demo_ledger (Inr demo_snapshot) 7 = Inr ?tr'"
    by (simp add: sync_with_exchange_def)
  have gx: "get_position demo_ledger ''X'' = Some demo_x"
    and gy: "get_position demo_ledger ''Y'' = Some demo_y"
    and fx: "find (\<lambda>e. ep_symbol e = ''X'') demo_snapshot = None"
    and fy: "find (\<lambda>e. ep_symbol e = ''Y'') demo_snapshot = Some (snapshot_entry ''Y'' 0 5 1)"
    and fy': "find (\<lambda>e. ep_symbol e = ''Y'' \<and> positionAmt e \<noteq> 0) demo_snapshot = None"
    and z: "snapshot_entry ''Z'' 3 51 4 \<in> set demo_snapshot" "\<not> tracked demo_ledger ''Z''"
    by (simp_all add: demo_x_def demo_y_def demo_ledger_def snapshot_entry_def demo_snapshot_def
        new_tracker_def add_position_def tracked_def get_position_def)
  note th = sync_with_exchange_reconciles[OF h]
  from th have a: "\<forall>s p. get_position demo_ledger s = Some p \<longrightarrow>
           (case find (\<lambda>e. ep_symbol e = s) demo_snapshot of
              None \<Rightarrow>
                get_position ?tr' s = None
                \<and> close_record p 0 7 ''external_close'' 0 \<in> set (get_closed_positions ?tr')
            | Some e \<Rightarrow>
                positionAmt e = 0 \<longrightarrow>
                close_record p (markPrice e) 7 ''external_close'' (unrealizedProfit e)
                  \<in> set (get_closed_positions ?tr')
                \<and> get_position ?tr' s
                    = map_option (\<lambda>e. adopted e 7)
                        (find (\<lambda>e. ep_symbol e = s \<and> positionAmt e \<noteq> 0) demo_snapshot))"
    by (rule conjunct1)
  from th have b: "\<forall>e \<in> set demo_snapshot. positionAmt e \<noteq> 0 \<and> \<not> tracked demo_ledger (ep_symbol e) \<longrightarrow>
          (\<exists>q. get_position ?tr' (ep_symbol e) = Some q
             \<and> stop_loss q = None \<and> take_profits q = [])"
    by (rule conjunct2)
  have x: "get_position ?tr' ''X'' = None
      \<and> close_record demo_x 0 7 ''external_close'' 0 \<in> set (get_closed_positions ?tr')"
    using a[rule_format, OF gx] by (simp add: fx)
  have y: "close_record demo_y 5 7 ''external_close'' 1 \<in> set (get_closed_positions ?tr')
      \<and> get_position ?tr' ''Y'' = None"
    using a[rule_format, OF gy] by (simp add: fy fy') (simp add: snapshot_entry_def)
  have zz: "\<exists>q. get_position ?tr' ''Z'' = Some q \<and> stop_loss q = None \<and> take_profits q = []"
    using b[rule_format, OF z(1)] z(2) by (simp add: snapshot_entry_def)
  show ?thesis using h gx gy fx fy x y z zz by simp
qed

section \<open>Risk gate: admission\<close>

lemmas risk_defs = can_trade_def reset_daily_stats_def has_open_position_def signal_strength_def
  displaces_def too_volatile_def in_cooldown_def weakest_symbol_def or_default_def
  demo_config_def demo_risk_def demo_open_def demo_signal_def snapshot_entry_def

lemma position_strengths_reset [simp]:
  "position_strengths (reset_daily_stats rm now) = position_strengths rm"
  by (simp add: reset_daily_stats_def)

lemma last_trade_time_reset [simp]:
  "last_trade_time (reset_daily_stats rm now) = last_trade_time rm"
  by (simp add: reset_daily_stats_def)

text \<open>
  Below capacity every admitted signal has passed checks 5 and 6.
\<close>

lemma can_trade_below_capacity:
  assumes "fst (can_trade cfg rm (Inr ps) now s sg)"
    and "int (length (filter (\<lambda>p. positionAmt p \<noteq> 0) ps))
           < or_default (max_concurrent_positions cfg) 5"
  shows "\<not> too_volatile sg \<and> \<not> in_cooldown cfg rm now s"
  using assms
  by (auto simp: can_trade_def Let_def in_cooldown_def split: if_splits)




text \<open>
  With several tracked symbols the comparison is against the one of least magnitude.
\<close>

lemma min_by_abs_least:
  "min_by_abs b xs \<in> set (b # xs)
   \<and> (\<forall>y \<in> set (b # xs). \<bar>snd (min_by_abs b xs)\<bar> \<le> \<bar>snd y\<bar>)"
proof (induction xs arbitrary: b)
  case Nil
  show ?case by simp
next
  case (Cons x xs)
  let ?b = "if \<bar>snd x\<bar> < \<bar>snd b\<bar> then x else b"
  from Cons[of ?b] have m: "min_by_abs ?b xs \<in> set (?b # xs)"
    and l: "\<forall>y \<in> set (?b # xs). \<bar>snd (min_by_abs ?b xs)\<bar> \<le> \<bar>snd y\<bar>"
    by blast+
  from l have lb: "\<bar>snd (min_by_abs ?b xs)\<bar> \<le> \<bar>snd ?b\<bar>" by simp
  have "\<bar>snd ?b\<bar> \<le> \<bar>snd x\<bar>" "\<bar>snd ?b\<bar> \<le> \<bar>snd b\<bar>" by auto
  with lb have "\<bar>snd (min_by_abs ?b xs)\<bar> \<le> \<bar>snd x\<bar>" "\<bar>snd (min_by_abs ?b xs)\<bar> \<le> \<bar>snd b\<bar>"
    by linarith+
  moreover from m have "min_by_abs ?b xs \<in> set (b # x # xs)" by (auto split: if_splits)
  ultimately show ?case using l by auto
qed

lemma displaces_weakest_of_many:
  assumes "(w, st) \<in> set (position_strengths rm)"
    and "\<bar>st\<bar> = 0.40"
    and "\<forall>kv \<in> set (position_strengths rm). fst kv \<noteq> [] \<and> 0.40 \<le> \<bar>snd kv\<bar>"
    and "distinct (map fst (position_strengths rm))"
  shows "displaces rm v \<longleftrightarrow> v > 0.40 * 1.2"
proof -
  from assms(1) obtain b xs where ps: "position_strengths rm = b # xs"
    by (cases "position_strengths rm") auto
  let ?m = "min_by_abs b xs"
  from min_by_abs_least[of b xs] ps have m: "?m \<in> set (position_strengths rm)"
    and l: "\<forall>y \<in> set (position_strengths rm). \<bar>snd ?m\<bar> \<le> \<bar>snd y\<bar>"
    by simp_all
  from l assms(1) have "\<bar>snd ?m\<bar> \<le> \<bar>st\<bar>" by fastforce
  moreover from assms(3) m have "0.40 \<le> \<bar>snd ?m\<bar>" and ne: "fst ?m \<noteq> []" by blast+
  ultimately have v: "\<bar>snd ?m\<bar> = 0.40" using assms(2) by linarith
  from m assms(4) have "map_of (position_strengths rm) (fst ?m) = Some (snd ?m)"
    by (simp add: map_of_eq_Some_iff)
  then have "displaces rm v \<longleftrightarrow> v > \<bar>snd ?m\<bar> * 1.2"
    using ne ps by (simp add: displaces_def weakest_symbol_def or_default_def)
  then show ?thesis by (simp only: v)
qed

text \<open>
  Claim C2 at a failing input.  The claim says that every admitted signal satisfies the
  volatility bound and is outside its cooldown window, also when it is admitted by
  displacement.  Here the count is at the maximum, the signal (strength 0.9) displaces
  the weakest symbol (0.40), its ATR is 10% of its price and its symbol was traded 10
  seconds ago: check 4 returns \<open>True\<close> before checks 5 and 6 run.
\<close>

theorem can_trade_displacement_skips_checks:
  "too_volatile (demo_signal 0.9 10)
   \<and> in_cooldown demo_config demo_risk 1010 ''BTCUSDT''
   \<and> fst (can_trade demo_config demo_risk (Inr demo_open) 1010 ''BTCUSDT'' (demo_signal 0.9 10))"
  by (simp add: risk_defs)

section \<open>Order lifecycle: which calls an operation issues\<close>

lemma only_callsD:
  "only_calls P m \<Longrightarrow> m w = (r, w') \<Longrightarrow>
   \<exists>new. w' = w\<lparr>trace := trace w @ new\<rparr> \<and> list_all P new"
  by (auto simp: only_calls_def)

lemma only_calls_returns: "only_calls P (returns a)"
  by (simp add: only_calls_def returns_def exI[of _ "[]"])

lemma only_calls_raises: "only_calls P (raises e)"
  by (simp add: only_calls_def raises_def exI[of _ "[]"])

lemma only_calls_and_then:
  assumes m: "only_calls P m" and f: "\<And>a. only_calls P (f a)"
  shows "only_calls P (and_then m f)"
  unfolding only_calls_def
proof (intro allI impI)
  fix w r w'
  assume run: "and_then m f w = (r, w')"
  obtain r1 w1 where m1: "m w = (r1, w1)" by (cases "m w")
  from only_callsD[OF m m1] obtain n1 where n1: "w1 = w\<lparr>trace := trace w @ n1\<rparr>" "list_all P n1" by blast
  show "\<exists>new. w' = w\<lparr>trace := trace w @ new\<rparr> \<and> list_all P new"
  proof (cases r1)
    case (Inl e)
    with run m1 have "w' = w1" by (simp add: and_then_def)
    with n1 show ?thesis by blast
  next
    case (Inr a)
    with run m1 have "f a w1 = (r, w')" by (simp add: and_then_def)
    from only_callsD[OF f this] obtain n2 where "w' = w1\<lparr>trace := trace w1 @ n2\<rparr>" "list_all P n2" by blast
    with n1 have "w' = w\<lparr>trace := trace w @ (n1 @ n2)\<rparr> \<and> list_all P (n1 @ n2)" by simp
    then show ?thesis by blast
  qed
qed

lemma only_calls_issue:
  assumes "P c" and "\<And>w. snd (m w) = issue c w"
  shows "only_calls P m"
  unfolding only_calls_def
proof (intro allI impI)
  fix w r w'
  assume "m w = (r, w')"
  then have "w' = issue c w" using assms(2)[of w] by simp
  then have "w' = w\<lparr>trace := trace w @ [c]\<rparr> \<and> list_all P [c]"
    using assms(1) by (simp add: issue_def)
  then show "\<exists>new. w' = w\<lparr>trace := trace w @ new\<rparr> \<and> list_all P new" by blast
qed

lemma only_calls_get_position_risk: "P GetPositionRisk \<Longrightarrow> only_calls P (call_get_position_risk cl)"
  by (rule only_calls_issue) (simp_all add: call_get_position_risk_def)

lemma only_calls_create_order: "P (CreateOrder req) \<Longrightarrow> only_calls P (call_create_order cl req)"
  by (rule only_calls_issue) (simp_all add: call_create_order_def)

lemma only_calls_get_order: "P (GetOrder s i) \<Longrightarrow> only_calls P (call_get_order cl s i)"
  by (rule only_calls_issue) (simp_all add: call_get_order_def)

lemma only_calls_get_klines: "P (GetKlines s) \<Longrightarrow> only_calls P (call_get_klines cl s)"
  by (rule only_calls_issue) (simp_all add: call_get_klines_def)

lemma only_calls_get_precision: "P (GetPrecision s) \<Longrightarrow> only_calls P (call_get_precision cl s)"
  by (rule only_calls_issue) (simp_all add: call_get_precision_def)

lemma only_calls_cancel_all_orders: "P (CancelAllOrders s) \<Longrightarrow> only_calls P (call_cancel_all_orders cl s)"
  by (rule only_calls_issue) (simp_all add: call_cancel_all_orders_def)

lemma only_calls_last_close: "P (GetKlines s) \<Longrightarrow> only_calls P (last_close cl s)"
  unfolding last_close_def
  by (intro only_calls_and_then only_calls_get_klines) (simp_all add: only_calls_returns only_calls_raises)

lemma only_calls_check_existing_position:
  assumes "P GetPositionRisk" and "\<And>r. req_type r = MARKET \<Longrightarrow> P (CreateOrder r)"
  shows "only_calls P (check_existing_position cl s)"
  unfolding check_existing_position_def
  by (intro only_calls_and_then only_calls_get_position_risk assms(1))
     (auto split: option.splits
           intro!: only_calls_returns only_calls_and_then only_calls_create_order assms(2)
           simp: flatten_request_def)

lemma only_calls_market_attempt:
  assumes "\<And>r. req_type r = MARKET \<Longrightarrow> P (CreateOrder r)" and "\<And>s i. P (GetOrder s i)"
  shows "only_calls P (market_attempt cl s sd q)"
  unfolding market_attempt_def
  by (intro only_calls_and_then only_calls_create_order assms(1))
     (auto intro!: only_calls_returns only_calls_raises only_calls_and_then only_calls_get_order assms(2)
           simp: market_request_def)

lemma only_calls_execute_market_order_loop:
  assumes "\<And>r. req_type r = MARKET \<Longrightarrow> P (CreateOrder r)" and "\<And>s i. P (GetOrder s i)"
  shows "only_calls P (execute_market_order_loop cl s sd q attempts)"
proof (induction attempts)
  case Nil
  show ?case by (simp add: only_calls_def exI[of _ "[]"])
next
  case (Cons attempt rest)
  show ?case
    unfolding only_calls_def
  proof (intro allI impI)
    fix w r w'
    assume run: "execute_market_order_loop cl s sd q (attempt # rest) w = (r, w')"
    obtain r1 w1 where a: "market_attempt cl s sd q w = (r1, w1)"
      by (cases "market_attempt cl s sd q w")
    from only_callsD[OF only_calls_market_attempt[of P, OF assms] a]
    obtain n1 where n1: "w1 = w\<lparr>trace := trace w @ n1\<rparr>" "list_all P n1" by blast
    show "\<exists>new. w' = w\<lparr>trace := trace w @ new\<rparr> \<and> list_all P new"
    proof (cases "\<exists>e. r1 = Inl e \<and> attempt \<noteq> 2")
      case True
      with run a have "execute_market_order_loop cl s sd q rest w1 = (r, w')" by auto
      from only_callsD[OF Cons this] obtain n2 where "w' = w1\<lparr>trace := trace w1 @ n2\<rparr>" "list_all P n2"
        by blast
      with n1 have "w' = w\<lparr>trace := trace w @ (n1 @ n2)\<rparr> \<and> list_all P (n1 @ n2)" by simp
      then show ?thesis by blast
    next
      case False
      with run a have "w' = w1" by (cases r1) (auto split: if_splits)
      with n1 show ?thesis by blast
    qed
  qed
qed


lemma only_calls_place_take_profits:
  assumes "\<And>r. req_type r \<noteq> MARKET \<Longrightarrow> P (CreateOrder r)"
  shows "only_calls P (place_take_profits cl s sd q prec tps)"
proof (induction tps)
  case Nil
  show ?case by (simp add: only_calls_def exI[of _ "[]"])
next
  case (Cons tp tps)
  let ?req = "tp_request s sd (py_round (q * (percentage tp / 100)) prec) (price tp)"
  have "place_take_profits cl s sd q prec (tp # tps)
      = and_then (call_create_order cl ?req) (\<lambda>_. place_take_profits cl s sd q prec tps)"
    by (rule ext) (simp add: and_then_def split: prod.splits sum.splits)
  moreover have "only_calls P (call_create_order cl ?req)"
    by (intro only_calls_create_order assms) (simp add: tp_request_def)
  ultimately show ?case using Cons by (simp add: only_calls_and_then)
qed

lemma only_calls_bracket_attempt:
  assumes "\<And>r. req_type r \<noteq> MARKET \<Longrightarrow> P (CreateOrder r)"
  shows "only_calls P (bracket_attempt cl s sd q prec sl tps)"
  unfolding bracket_attempt_def
  by (intro only_calls_and_then only_calls_create_order only_calls_place_take_profits assms)
     (simp_all add: sl_request_def)

lemma only_calls_place_orders_loop:
  assumes "\<And>r. req_type r \<noteq> MARKET \<Longrightarrow> P (CreateOrder r)"
  shows "only_calls P (place_orders_loop cl s sd q prec n sl tps attempts)"
proof (induction attempts arbitrary: sl tps)
  case Nil
  show ?case by (simp add: only_calls_def exI[of _ "[]"])
next
  case (Cons attempt rest)
  show ?case
    unfolding only_calls_def
  proof (intro allI impI)
    fix w r w'
    assume run: "place_orders_loop cl s sd q prec n sl tps (attempt # rest) w = (r, w')"
    obtain r1 w1 where a: "bracket_attempt cl s sd q prec sl tps w = (r1, w1)"
      by (cases "bracket_attempt cl s sd q prec sl tps w")
    from only_callsD[OF only_calls_bracket_attempt[of P, OF assms] a]
    obtain n1 where n1: "w1 = w\<lparr>trace := trace w @ n1\<rparr>" "list_all P n1" by blast
    show "\<exists>new. w' = w\<lparr>trace := trace w @ new\<rparr> \<and> list_all P new"
    proof (cases "\<exists>e. r1 = Inl e \<and> int attempt \<noteq> int n - 1")
      case True
      with run a have "place_orders_loop cl s sd q prec n
          (adjust_sl sd prec sl) (adjust_tps sd prec tps) rest w1 = (r, w')" by auto
      from only_callsD[OF Cons this] obtain n2 where "w' = w1\<lparr>trace := trace w1 @ n2\<rparr>" "list_all P n2"
        by blast
      with n1 have "w' = w\<lparr>trace := trace w @ (n1 @ n2)\<rparr> \<and> list_all P (n1 @ n2)" by simp
      then show ?thesis by blast
    next
      case False
      with run a have "w' = w1" by (cases r1) (auto split: if_splits)
      with n1 show ?thesis by blast
    qed
  qed
qed

lemma only_calls_place_sl_tp_orders:
  assumes "\<And>s. P (GetKlines s)" and "\<And>s. P (GetPrecision s)"
    and "\<And>r. req_type r \<noteq> MARKET \<Longrightarrow> P (CreateOrder r)"
  shows "only_calls P (place_sl_tp_orders cl s sd q entry sl tps)"
  unfolding place_sl_tp_orders_def place_orders_with_retry_def
  by (intro only_calls_and_then only_calls_last_close only_calls_get_precision only_calls_place_orders_loop
        only_calls_returns assms)

lemma only_calls_calculate_avg_fill_price:
  assumes "P GetPositionRisk" and "calculate_avg_fill_price cl ord w = (a, w')"
  shows "\<exists>new. w' = w\<lparr>trace := trace w @ new\<rparr> \<and> list_all P new"
proof -
  have "w' = w \<or> w' = issue GetPositionRisk w"
    using assms(2)
    by (auto simp: calculate_avg_fill_price_def Let_def call_get_position_risk_def
             split: if_splits sum.splits option.splits)
  then have "w' = w\<lparr>trace := trace w @ []\<rparr> \<and> list_all P []
      \<or> w' = w\<lparr>trace := trace w @ [GetPositionRisk]\<rparr> \<and> list_all P [GetPositionRisk]"
    using assms(1) by (auto simp: issue_def)
  then show ?thesis by blast
qed

lemma only_calls_fill_price_or_market:
  assumes "P GetPositionRisk" and "\<And>s. P (GetKlines s)"
  shows "only_calls P (fill_price_or_market cl s ord)"
  unfolding only_calls_def
proof (intro allI impI)
  fix w r w'
  assume run: "fill_price_or_market cl s ord w = (r, w')"
  obtain a w1 where c: "calculate_avg_fill_price cl ord w = (a, w1)"
    by (cases "calculate_avg_fill_price cl ord w")
  from only_calls_calculate_avg_fill_price[of P, OF assms(1) c]
  obtain n1 where n1: "w1 = w\<lparr>trace := trace w @ n1\<rparr>" "list_all P n1" by blast
  have "w' = w1 \<or> last_close cl s w1 = (r, w')"
    using run c by (auto simp: fill_price_or_market_def split: option.splits if_splits)
  then show "\<exists>new. w' = w\<lparr>trace := trace w @ new\<rparr> \<and> list_all P new"
  proof
    assume "w' = w1"
    with n1 show ?thesis by blast
  next
    assume "last_close cl s w1 = (r, w')"
    from only_callsD[OF only_calls_last_close[of P, OF assms(2)] this]
    obtain n2 where "w' = w1\<lparr>trace := trace w1 @ n2\<rparr>" "list_all P n2" by blast
    with n1 have "w' = w\<lparr>trace := trace w @ (n1 @ n2)\<rparr> \<and> list_all P (n1 @ n2)" by simp
    then show ?thesis by blast
  qed
qed

lemma emitsD:
  "emits P m \<Longrightarrow> m w = (r, w') \<Longrightarrow> \<exists>new. trace w' = trace w @ new \<and> list_all P new"
  by (auto simp: emits_def)

lemma only_calls_emits: "only_calls P m \<Longrightarrow> emits P m"
  unfolding only_calls_def emits_def
proof (intro allI impI)
  fix w r w'
  assume "\<forall>w r w'. m w = (r, w') \<longrightarrow> (\<exists>new. w' = w\<lparr>trace := trace w @ new\<rparr> \<and> list_all P new)"
    and "m w = (r, w')"
  then obtain new where "w' = w\<lparr>trace := trace w @ new\<rparr>" "list_all P new" by blast
  then have "trace w' = trace w @ new \<and> list_all P new" by simp
  then show "\<exists>new. trace w' = trace w @ new \<and> list_all P new" by blast
qed

lemma emits_raises: "emits P (raises e)"
  by (simp add: only_calls_emits only_calls_raises)

lemma emits_and_then:
  assumes m: "emits P m" and f: "\<And>a. emits P (f a)"
  shows "emits P (and_then m f)"
  unfolding emits_def
proof (intro allI impI)
  fix w r w'
  assume run: "and_then m f w = (r, w')"
  obtain r1 w1 where m1: "m w = (r1, w1)" by (cases "m w")
  from emitsD[OF m m1] obtain n1 where n1: "trace w1 = trace w @ n1" "list_all P n1" by blast
  show "\<exists>new. trace w' = trace w @ new \<and> list_all P new"
  proof (cases r1)
    case (Inl e)
    with run m1 have "w' = w1" by (simp add: and_then_def)
    with n1 show ?thesis by blast
  next
    case (Inr a)
    with run m1 have "f a w1 = (r, w')" by (simp add: and_then_def)
    from emitsD[OF f this] obtain n2 where "trace w' = trace w1 @ n2" "list_all P n2" by blast
    with n1 have "trace w' = trace w @ (n1 @ n2) \<and> list_all P (n1 @ n2)" by simp
    then show ?thesis by blast
  qed
qed

lemma emits_record_and_alert:
  assumes "P (Notify (TradeAlert sg avg))"
  shows "emits P (\<lambda>w. (Inr ord, send_trade_alert sg avg (record_position sg ord avg now w)))"
  unfolding emits_def
proof (intro allI impI)
  fix w r w'
  assume "(Inr ord, send_trade_alert sg avg (record_position sg ord avg now w)) = (r, w')"
  then have "trace w' = trace w @ [Notify (TradeAlert sg avg)]"
    by (auto simp: send_trade_alert_def record_position_def issue_def)
  with assms show "\<exists>new. trace w' = trace w @ new \<and> list_all P new" by simp
qed

lemma emits_protect_and_record:
  assumes "P GetPositionRisk" and "\<And>s. P (GetKlines s)" and "\<And>s. P (GetPrecision s)"
    and "\<And>r. req_type r \<noteq> MARKET \<Longrightarrow> P (CreateOrder r)"
    and "\<And>sg p. P (Notify (TradeAlert sg p))"
  shows "emits P (protect_and_record cl sg now ord)"
  unfolding protect_and_record_def
proof (intro emits_and_then)
  show "emits P (fill_price_or_market cl (sig_symbol sg) ord)"
    by (intro only_calls_emits only_calls_fill_price_or_market assms)
  show "emits P (place_sl_tp_orders cl (sig_symbol sg) (sig_side sg) (executed ord) a
      (sig_stop_loss sg) (sig_take_profits sg))" for a
    by (intro only_calls_emits only_calls_place_sl_tp_orders assms)
  show "emits P (\<lambda>w. (Inr ord, send_trade_alert sg a (record_position sg ord a now w)))" for a
    by (intro emits_record_and_alert assms)
qed

lemma emits_place_order_body:
  assumes "P GetPositionRisk" and "\<And>s. P (GetKlines s)" and "\<And>s. P (GetPrecision s)"
    and "\<And>r. P (CreateOrder r)" and "\<And>s i. P (GetOrder s i)"
    and "\<And>sg p. P (Notify (TradeAlert sg p))"
  shows "emits P (place_order_body cl sg now)"
  unfolding place_order_body_def execute_market_order_def
proof (intro emits_and_then)
  show "emits P (check_existing_position cl (sig_symbol sg))"
    by (intro only_calls_emits only_calls_check_existing_position assms)
  show "emits P (execute_market_order_loop cl (sig_symbol sg) (sig_side sg) (size sg) [0, 1, 2])"
    by (intro only_calls_emits only_calls_execute_market_order_loop assms)
  show "emits P (case filled of
           None \<Rightarrow> raises ''Order not filled''
         | Some ord \<Rightarrow>
             if executed ord \<le> 0 then raises ''Order not filled''
             else protect_and_record cl sg now ord)" for filled
    by (auto split: option.splits intro!: emits_raises emits_protect_and_record assms)
qed

lemmas om_defs = place_order_def place_order_body_def check_existing_position_def
  execute_market_order_def market_attempt_def market_request_def protect_and_record_def
  fill_price_or_market_def calculate_avg_fill_price_def place_sl_tp_orders_def
  place_orders_with_retry_def bracket_attempt_def sl_request_def tp_request_def
  guard_prices_def adjust_sl_def adjust_tps_def adjustment_factor_def
  last_close_def call_get_position_risk_def call_create_order_def call_get_order_def
  call_get_klines_def call_get_precision_def call_cancel_all_orders_def
  call_get_open_orders_def and_then_def returns_def raises_def issue_def
  handle_failure_def cleanup_def record_position_def send_trade_alert_def
  executed_def opposite_def or_default_def trigger_phrase_def
  new_order_manager_def demo_client_def demo_order_def demo_signal_def
  accepting_def stale_def rejecting_def

lemma upt3: "[0..<3] = [0, 1, 2]"
  by (simp add: upt_rec)

section \<open>Bracket placement: the retry loop\<close>

lemma only_calls_take_profits_only:
  assumes "\<And>r. req_type r = TAKE_PROFIT_MARKET \<Longrightarrow> P (CreateOrder r)"
  shows "only_calls P (place_take_profits cl s sd q prec tps)"
proof (induction tps)
  case Nil
  show ?case by (simp add: only_calls_def exI[of _ "[]"])
next
  case (Cons tp tps)
  let ?req = "tp_request s sd (py_round (q * (percentage tp / 100)) prec) (price tp)"
  have "place_take_profits cl s sd q prec (tp # tps)
      = and_then (call_create_order cl ?req) (\<lambda>_. place_take_profits cl s sd q prec tps)"
    by (rule ext) (simp add: and_then_def split: prod.splits sum.splits)
  moreover have "only_calls P (call_create_order cl ?req)"
    by (intro only_calls_create_order assms) (simp add: tp_request_def)
  ultimately show ?case using Cons by (simp add: only_calls_and_then)
qed

lemma stop_loss_prices_append:
  "stop_loss_prices (xs @ ys) = stop_loss_prices xs @ stop_loss_prices ys"
  by (induction xs) (simp_all add: stop_loss_prices_def map_filter_simps split: option.splits)

lemma stop_loss_prices_none:
  "list_all (\<lambda>c. stop_loss_price c = None) cs \<Longrightarrow> stop_loss_prices cs = []"
  by (induction cs) (simp_all add: stop_loss_prices_def map_filter_simps)

text \<open>One attempt issues exactly one stop-loss order, at the price it is given.\<close>

lemma bracket_attempt_stop_loss:
  assumes "bracket_attempt cl s sd q prec sl tps w = (r, w')"
  shows "\<exists>new. trace w' = trace w @ new \<and> stop_loss_prices new = [sl]"
proof -
  let ?c = "CreateOrder (sl_request s sd (py_round q prec) sl)"
  have first: "stop_loss_prices [?c] = [sl]"
    by (simp add: stop_loss_prices_def map_filter_simps sl_request_def)
  obtain r1 w1 where c: "call_create_order cl (sl_request s sd (py_round q prec) sl) w = (r1, w1)"
    by (cases "call_create_order cl (sl_request s sd (py_round q prec) sl) w")
  then have t1: "trace w1 = trace w @ [?c]"
    by (auto simp: call_create_order_def issue_def)
  show ?thesis
  proof (cases r1)
    case (Inl e)
    with assms c have "w' = w1" by (simp add: bracket_attempt_def and_then_def)
    with t1 first show ?thesis by blast
  next
    case (Inr a)
    with assms c have run: "place_take_profits cl s sd q prec tps w1 = (r, w')"
      by (simp add: bracket_attempt_def and_then_def)
    have "only_calls (\<lambda>c. stop_loss_price c = None) (place_take_profits cl s sd q prec tps)"
      by (rule only_calls_take_profits_only) simp
    from only_callsD[OF this run] obtain n2
      where n2: "w' = w1\<lparr>trace := trace w1 @ n2\<rparr>" "list_all (\<lambda>c. stop_loss_price c = None) n2"
      by blast
    then have "trace w' = trace w @ ([?c] @ n2)" using t1 by simp
    moreover have "stop_loss_prices ([?c] @ n2) = [sl]"
      using first stop_loss_prices_none[OF n2(2)] by (simp only: stop_loss_prices_append) simp
    ultimately show ?thesis by blast
  qed
qed

lemma place_orders_with_retry_unfold:
  "place_orders_with_retry cl s sd q sl tps prec 3 w =
     (case bracket_attempt cl s sd q prec sl tps w of
        (Inr u, w1) \<Rightarrow> (Inr (Some True), w1)
      | (Inl e1, w1) \<Rightarrow>
          (case bracket_attempt cl s sd q prec (adjust_sl sd prec sl) (adjust_tps sd prec tps) w1 of
             (Inr u, w2) \<Rightarrow> (Inr (Some True), w2)
           | (Inl e2, w2) \<Rightarrow>
               (case bracket_attempt cl s sd q prec (adjust_sl sd prec (adjust_sl sd prec sl))
                       (adjust_tps sd prec (adjust_tps sd prec tps)) w2 of
                  (Inr u, w3) \<Rightarrow> (Inr (Some True), w3)
                | (Inl e3, w3) \<Rightarrow> (Inl e3, w3))))"
  by (simp add: place_orders_with_retry_def upt3 split: prod.splits sum.splits)

text \<open>
  Claim C5.  With the default of three retries, \<open>_place_orders_with_retry\<close> issues
  at most three stop-loss orders, one per attempt, at the prices \<open>sl\<close>,
  \<open>nudge sl\<close>, \<open>nudge (nudge sl)\<close>, where \<open>nudge\<close> multiplies a price by 1.001
  for \<open>BUY\<close> and by 0.999 for \<open>SELL\<close> and rounds it to the price precision.  When
  it raises, exactly three attempts have run and failed, the second and third with the
  stop-loss and every take-profit price nudged once and twice, and the error raised is
  the error of the third attempt.  Conversely, when these three attempts fail, it raises
  the error of the third.
\<close>

theorem place_orders_with_retry_three_attempts:
  assumes "place_orders_with_retry cl s sd q sl tps prec 3 w = (r, w')"
  shows "let f = (if sd = BUY then 1.001 else 0.999);
             nudge = (\<lambda>p. py_round (p * f) prec);
             nudge_all = map (\<lambda>tp. \<lparr>price = nudge (price tp), percentage = percentage tp\<rparr>)
         in (\<exists>new. trace w' = trace w @ new
               \<and> prefix (stop_loss_prices new) [sl, nudge sl, nudge (nudge sl)])
          \<and> (\<forall>e. r = Inl e \<longrightarrow>
                (\<exists>e1 e2 w1 w2.
                    bracket_attempt cl s sd q prec sl tps w = (Inl e1, w1)
                  \<and> bracket_attempt cl s sd q prec (nudge sl) (nudge_all tps) w1 = (Inl e2, w2)
                  \<and> bracket_attempt cl s sd q prec (nudge (nudge sl)) (nudge_all (nudge_all tps)) w2
                      = (Inl e, w'))
              \<and> (\<exists>new. trace w' = trace w @ new
                    \<and> stop_loss_prices new = [sl, nudge sl, nudge (nudge sl)]))
          \<and> (\<forall>e1 e2 e3 w1 w2 w3.
                  bracket_attempt cl s sd q prec sl tps w = (Inl e1, w1)
                \<and> bracket_attempt cl s sd q prec (nudge sl) (nudge_all tps) w1 = (Inl e2, w2)
                \<and> bracket_attempt cl s sd q prec (nudge (nudge sl)) (nudge_all (nudge_all tps)) w2
                    = (Inl e3, w3)
                \<longrightarrow> r = Inl e3 \<and> w' = w3)"
proof -
  let ?sl1 = "adjust_sl sd prec sl" and ?tps1 = "adjust_tps sd prec tps"
  let ?sl2 = "adjust_sl sd prec ?sl1" and ?tps2 = "adjust_tps sd prec ?tps1"
  obtain r1 w1 where a1: "bracket_attempt cl s sd q prec sl tps w = (r1, w1)"
    by (cases "bracket_attempt cl s sd q prec sl tps w")
  obtain r2 w2 where a2: "bracket_attempt cl s sd q prec ?sl1 ?tps1 w1 = (r2, w2)"
    by (cases "bracket_attempt cl s sd q prec ?sl1 ?tps1 w1")
  obtain r3 w3 where a3: "bracket_attempt cl s sd q prec ?sl2 ?tps2 w2 = (r3, w3)"
    by (cases "bracket_attempt cl s sd q prec ?sl2 ?tps2 w2")
  from bracket_attempt_stop_loss[OF a1] obtain n1
    where n1: "trace w1 = trace w @ n1" "stop_loss_prices n1 = [sl]" by blast
  from bracket_attempt_stop_loss[OF a2] obtain n2
    where n2: "trace w2 = trace w1 @ n2" "stop_loss_prices n2 = [?sl1]" by blast
  from bracket_attempt_stop_loss[OF a3] obtain n3
    where n3: "trace w3 = trace w2 @ n3" "stop_loss_prices n3 = [?sl2]" by blast
  have t2: "trace w2 = trace w @ (n1 @ n2)" "stop_loss_prices (n1 @ n2) = [sl, ?sl1]"
    using n1 n2 by (simp_all add: stop_loss_prices_append)
  have t3: "trace w3 = trace w @ (n1 @ n2 @ n3)" "stop_loss_prices (n1 @ n2 @ n3) = [sl, ?sl1, ?sl2]"
    using n1 n2 n3 by (simp_all add: stop_loss_prices_append)
  have run: "(r, w') =
     (case r1 of Inr u \<Rightarrow> (Inr (Some True), w1)
      | Inl e1 \<Rightarrow> (case r2 of Inr u \<Rightarrow> (Inr (Some True), w2)
          | Inl e2 \<Rightarrow> (case r3 of Inr u \<Rightarrow> (Inr (Some True), w3) | Inl e3 \<Rightarrow> (Inl e3, w3))))"
    using assms a1 a2 a3 by (simp add: place_orders_with_retry_unfold split: sum.splits)
  have bound: "\<exists>new. trace w' = trace w @ new
      \<and> prefix (stop_loss_prices new) [sl, ?sl1, ?sl2]"
  proof (cases r1)
    case (Inr u)
    with run have "w' = w1" by simp
    with n1 have "trace w' = trace w @ n1 \<and> prefix (stop_loss_prices n1) [sl, ?sl1, ?sl2]"
      by simp
    then show ?thesis by blast
  next
    case e1: (Inl e1)
    show ?thesis
    proof (cases r2)
      case (Inr u)
      with run e1 have "w' = w2" by simp
      with t2 have "trace w' = trace w @ (n1 @ n2)
          \<and> prefix (stop_loss_prices (n1 @ n2)) [sl, ?sl1, ?sl2]" by simp
      then show ?thesis by blast
    next
      case e2: (Inl e2)
      with run e1 have "w' = w3" by (simp split: sum.splits)
      with t3 have "trace w' = trace w @ (n1 @ n2 @ n3)
          \<and> prefix (stop_loss_prices (n1 @ n2 @ n3)) [sl, ?sl1, ?sl2]" by simp
      then show ?thesis by blast
    qed
  qed
  have fail: "(\<exists>e1 e2 w1 w2.
         bracket_attempt cl s sd q prec sl tps w = (Inl e1, w1)
       \<and> bracket_attempt cl s sd q prec ?sl1 ?tps1 w1 = (Inl e2, w2)
       \<and> bracket_attempt cl s sd q prec ?sl2 ?tps2 w2 = (Inl e, w'))
     \<and> (\<exists>new. trace w' = trace w @ new \<and> stop_loss_prices new = [sl, ?sl1, ?sl2])"
    if "r = Inl e" for e
  proof -
    from that run obtain e1 e2 where "r1 = Inl e1" "r2 = Inl e2" "r3 = Inl e" "w' = w3"
      by (auto split: sum.splits)
    with a1 a2 a3 t3 show ?thesis by blast
  qed
  have raise: "r = Inl e3 \<and> w' = v3"
    if "bracket_attempt cl s sd q prec sl tps w = (Inl e1, v1)"
      "bracket_attempt cl s sd q prec ?sl1 ?tps1 v1 = (Inl e2, v2)"
      "bracket_attempt cl s sd q prec ?sl2 ?tps2 v2 = (Inl e3, v3)" for e1 e2 e3 v1 v2 v3
    using that assms by (simp add: place_orders_with_retry_unfold)
  show ?thesis
    unfolding Let_def
  proof (intro conjI allI impI)
    show "\<exists>new. trace w' = trace w @ new
        \<and> prefix (stop_loss_prices new)
            [sl, py_round (sl * (if sd = BUY then 1.001 else 0.999)) prec,
             py_round (py_round (sl * (if sd = BUY then 1.001 else 0.999)) prec
                       * (if sd = BUY then 1.001 else 0.999)) prec]"
      using bound by (simp add: adjust_sl_def adjustment_factor_def)
  next
    fix e assume "r = Inl e"
    from fail[OF this]
    show "\<exists>e1 e2 w1 w2.
        bracket_attempt cl s sd q prec sl tps w = (Inl e1, w1)
      \<and> bracket_attempt cl s sd q prec (py_round (sl * (if sd = BUY then 1.001 else 0.999)) prec)
          (map (\<lambda>tp. \<lparr>price = py_round (price tp * (if sd = BUY then 1.001 else 0.999)) prec,
                        percentage = percentage tp\<rparr>) tps) w1 = (Inl e2, w2)
      \<and> bracket_attempt cl s sd q prec
          (py_round (py_round (sl * (if sd = BUY then 1.001 else 0.999)) prec
                     * (if sd = BUY then 1.001 else 0.999)) prec)
          (map (\<lambda>tp. \<lparr>price = py_round (price tp * (if sd = BUY then 1.001 else 0.999)) prec,
                        percentage = percentage tp\<rparr>)
             (map (\<lambda>tp. \<lparr>price = py_round (price tp * (if sd = BUY then 1.001 else 0.999)) prec,
                           percentage = percentage tp\<rparr>) tps)) w2 = (Inl e, w')"
      and "\<exists>new. trace w' = trace w @ new
        \<and> stop_loss_prices new
            = [sl, py_round (sl * (if sd = BUY then 1.001 else 0.999)) prec,
               py_round (py_round (sl * (if sd = BUY then 1.001 else 0.999)) prec
                         * (if sd = BUY then 1.001 else 0.999)) prec]"
      by (simp_all add: adjust_sl_def adjust_tps_def adjustment_factor_def)
  next
    fix e1 e2 e3 w1 w2 w3
    assume "bracket_attempt cl s sd q prec sl tps w = (Inl e1, w1)
      \<and> bracket_attempt cl s sd q prec (py_round (sl * (if sd = BUY then 1.001 else 0.999)) prec)
          (map (\<lambda>tp. \<lparr>price = py_round (price tp * (if sd = BUY then 1.001 else 0.999)) prec,
                        percentage = percentage tp\<rparr>) tps) w1 = (Inl e2, w2)
      \<and> bracket_attempt cl s sd q prec
          (py_round (py_round (sl * (if sd = BUY then 1.001 else 0.999)) prec
                     * (if sd = BUY then 1.001 else 0.999)) prec)
          (map (\<lambda>tp. \<lparr>price = py_round (price tp * (if sd = BUY then 1.001 else 0.999)) prec,
                        percentage = percentage tp\<rparr>)
             (map (\<lambda>tp. \<lparr>price = py_round (price tp * (if sd = BUY then 1.001 else 0.999)) prec,
                           percentage = percentage tp\<rparr>) tps)) w2 = (Inl e3, w3)"
    then have "r = Inl e3 \<and> w' = w3"
      using raise[of e1 w1 e2 w2 e3 w3]
      by (simp add: adjust_sl_def adjust_tps_def adjustment_factor_def)
    then show "r = Inl e3" and "w' = w3" by simp_all
  qed
qed


text \<open>
  The theorem of C5 on an exchange that refuses every protective order, for a long and
  for a short position: three stop-loss orders, at 99.85, 99.95, 100.05 and at 100.15,
  100.05, 99.95.
\<close>

theorem place_orders_with_retry_three_attempts_witness:
  "fst (place_orders_with_retry (demo_client rejecting) ''BTCUSDT'' BUY 1 (1997 / 20)
          [\<lparr>price = 501 / 5, percentage = 50\<rparr>] 2 3 new_order_manager)
     = Inl ''API Error 400: Margin is insufficient.''
   \<and> stop_loss_prices
         (trace (snd (place_orders_with_retry (demo_client rejecting) ''BTCUSDT'' BUY 1 (1997 / 20)
                        [\<lparr>price = 501 / 5, percentage = 50\<rparr>] 2 3 new_order_manager)))
       = [1997 / 20, 1999 / 20, 2001 / 20]
   \<and> fst (place_orders_with_retry (demo_client rejecting) ''BTCUSDT'' SELL 1 (2003 / 20)
          [\<lparr>price = 499 / 5, percentage = 50\<rparr>] 2 3 new_order_manager)
     = Inl ''API Error 400: Margin is insufficient.''
   \<and> stop_loss_prices
         (trace (snd (place_orders_with_retry (demo_client rejecting) ''BTCUSDT'' SELL 1 (2003 / 20)
                        [\<lparr>price = 499 / 5, percentage = 50\<rparr>] 2 3 new_order_manager)))
       = [2003 / 20, 2001 / 20, 1999 / 20]"
proof -
  let ?e = "''API Error 400: Margin is insufficient.''"
  let ?buy = "place_orders_with_retry (demo_client rejecting) ''BTCUSDT'' BUY 1 (1997 / 20)
          [\<lparr>price = 501 / 5, percentage = 50\<rparr>] 2 3 new_order_manager"
  let ?sell = "place_orders_with_retry (demo_client rejecting) ''BTCUSDT'' SELL 1 (2003 / 20)
          [\<lparr>price = 499 / 5, percentage = 50\<rparr>] 2 3 new_order_manager"
  have rb: "fst ?buy = Inl ?e" and rs: "fst ?sell = Inl ?e"
    by (simp_all add: om_defs upt3 py_round_def Let_def)
  have hb: "?buy = (Inl ?e, snd ?buy)" using rb by (simp add: prod_eq_iff)
  have hs: "?sell = (Inl ?e, snd ?sell)" using rs by (simp add: prod_eq_iff)
  have t0: "trace new_order_manager = []" by (simp add: new_order_manager_def)
  from place_orders_with_retry_three_attempts[OF hb]
  have "\<exists>new. trace (snd ?buy) = trace new_order_manager @ new
      \<and> stop_loss_prices new = [1997 / 20, 1999 / 20, 2001 / 20]"
    by (simp add: Let_def py_round_def)
  then have b: "stop_loss_prices (trace (snd ?buy)) = [1997 / 20, 1999 / 20, 2001 / 20]"
    by (auto simp: t0)
  from place_orders_with_retry_three_attempts[OF hs]
  have "\<exists>new. trace (snd ?sell) = trace new_order_manager @ new
      \<and> stop_loss_prices new = [2003 / 20, 2001 / 20, 1999 / 20]"
    by (simp add: Let_def py_round_def)
  then have s: "stop_loss_prices (trace (snd ?sell)) = [2003 / 20, 2001 / 20, 1999 / 20]"
    by (auto simp: t0)
  from rb rs b s show ?thesis by simp
qed

section \<open>\<open>place_order\<close>: deferral and rollback\<close>

text \<open>\<open>is_substring\<close> is the contiguous-sublist relation of the library.\<close>

lemma is_substring_sublist: "is_substring needle hay \<longleftrightarrow> sublist needle hay"
  by (induction hay) (simp_all add: sublist_Cons_right)

text \<open>
  The prefix that \<open>_execute_market_order\<close> puts before the last error keeps the
  phrase in the message.
\<close>

lemma is_substring_wrapped: "is_substring needle e \<Longrightarrow> is_substring needle (p @ e)"
  by (auto simp: is_substring_sublist sublist_def) (metis append.assoc)

lemma handle_failure_trace:
  "\<exists>new. trace (handle_failure cl s e w)
     = trace w @ [CancelAllOrders s] @ new @ [Notify (OrderFailed s e)]"
proof -
  obtain r1 w1 where c: "call_cancel_all_orders cl s w = (r1, w1)"
    by (cases "call_cancel_all_orders cl s w")
  then have t1: "trace w1 = trace w @ [CancelAllOrders s]"
    by (auto simp: call_cancel_all_orders_def issue_def)
  let ?rest = "and_then (call_get_position_risk cl) (\<lambda>ps.
         case find (\<lambda>p. ep_symbol p = s \<and> positionAmt p \<noteq> 0) ps of
           None \<Rightarrow> returns ()
         | Some pos \<Rightarrow> and_then (call_create_order cl (flatten_request s pos)) (\<lambda>_. returns ()))"
  have e: "emits (\<lambda>c. True) ?rest"
    by (intro only_calls_emits only_calls_and_then only_calls_get_position_risk)
       (auto split: option.splits
             intro!: only_calls_returns only_calls_and_then only_calls_create_order)
  have "\<exists>new. trace (snd (cleanup cl s w)) = trace w1 @ new"
  proof (cases r1)
    case (Inl x)
    with c have "snd (cleanup cl s w) = w1" by (simp add: cleanup_def and_then_def)
    then show ?thesis by simp
  next
    case (Inr u)
    with c have "cleanup cl s w = ?rest w1" by (simp add: cleanup_def and_then_def)
    then have "?rest w1 = (fst (cleanup cl s w), snd (cleanup cl s w))" by simp
    from emitsD[OF e this] show ?thesis by blast
  qed
  then obtain new where "trace (snd (cleanup cl s w)) = trace w1 @ new" by blast
  with t1 have "trace (handle_failure cl s e w)
      = trace w @ [CancelAllOrders s] @ new @ [Notify (OrderFailed s e)]"
    by (simp add: handle_failure_def issue_def)
  then show ?thesis by blast
qed

lemma place_order_body_no_rollback:
  assumes "place_order_body cl sg now w = (r, w')"
  shows "\<exists>new. trace w' = trace w @ new
    \<and> list_all (\<lambda>c. \<not> is_cancel c \<and> \<not> is_failure_alert c \<and> \<not> is_open_orders_query c) new"
  by (rule emitsD[OF emits_place_order_body assms]) simp_all

text \<open>
  Claim C6.  Whenever the body of \<open>place_order\<close> raises an error \<open>e\<close>: if the
  message contains \<open>Order would immediately trigger\<close>, \<open>place_order\<close> returns
  \<open>None\<close> in the state the body left, and the calls issued contain no order
  cancellation and no failure alert; otherwise \<open>place_order\<close> raises \<open>e\<close> after
  \<open>_handle_failure\<close>, whose calls start with the cancellation of the symbol's orders
  and end with the failure alert.
\<close>

theorem place_order_defers_on_trigger_phrase:
  assumes "place_order_body cl sg now w = (Inl e, w')"
  shows "(is_substring ''Order would immediately trigger'' e \<longrightarrow>
            place_order cl sg now w = (Inr None, w')
            \<and> (\<exists>new. trace w' = trace w @ new
                  \<and> list_all (\<lambda>c. \<not> is_cancel c \<and> \<not> is_failure_alert c) new))
       \<and> (\<not> is_substring ''Order would immediately trigger'' e \<longrightarrow>
            place_order cl sg now w = (Inl e, handle_failure cl (sig_symbol sg) e w')
            \<and> (\<exists>new. trace (handle_failure cl (sig_symbol sg) e w')
                  = trace w' @ [CancelAllOrders (sig_symbol sg)] @ new
                    @ [Notify (OrderFailed (sig_symbol sg) e)]))"
proof -
  from place_order_body_no_rollback[OF assms]
  obtain new where "trace w' = trace w @ new"
    "list_all (\<lambda>c. \<not> is_cancel c \<and> \<not> is_failure_alert c \<and> \<not> is_open_orders_query c) new"
    by blast
  then have "trace w' = trace w @ new \<and> list_all (\<lambda>c. \<not> is_cancel c \<and> \<not> is_failure_alert c) new"
    by (simp add: list_all_iff)
  then have "\<exists>new. trace w' = trace w @ new
      \<and> list_all (\<lambda>c. \<not> is_cancel c \<and> \<not> is_failure_alert c) new" by blast
  then show ?thesis
    using assms handle_failure_trace[of cl "sig_symbol sg" e w']
    by (simp add: place_order_def trigger_phrase_def)
qed


lemma body_stale:
  "fst (place_order_body (demo_client stale) (demo_signal 0.9 1) 7 new_order_manager)
     = Inl ''API Error 400: Order would immediately trigger.''"
  by (simp add: om_defs upt3 py_round_def Let_def)

lemma body_rejecting:
  "fst (place_order_body (demo_client rejecting) (demo_signal 0.9 1) 7 new_order_manager)
     = Inl ''API Error 400: Margin is insufficient.''"
  by (simp add: om_defs upt3 py_round_def Let_def)

text \<open>
  The theorem of C6 on an exchange that fills the entry and answers every protective
  order with the trigger error (deferred, no rollback), and on one that answers them with
  another error (rollback, error raised again).
\<close>

theorem place_order_defers_on_trigger_phrase_witness:
  "fst (place_order (demo_client stale) (demo_signal 0.9 1) 7 new_order_manager) = Inr None
   \<and> \<not> list_ex is_cancel
         (trace (snd (place_order (demo_client stale) (demo_signal 0.9 1) 7 new_order_manager)))
   \<and> \<not> list_ex is_failure_alert
         (trace (snd (place_order (demo_client stale) (demo_signal 0.9 1) 7 new_order_manager)))
   \<and> fst (place_order (demo_client rejecting) (demo_signal 0.9 1) 7 new_order_manager)
       = Inl ''API Error 400: Margin is insufficient.''
   \<and> list_ex is_cancel
         (trace (snd (place_order (demo_client rejecting) (demo_signal 0.9 1) 7 new_order_manager)))
   \<and> last (trace (snd (place_order (demo_client rejecting) (demo_signal 0.9 1) 7
                         new_order_manager)))
       = Notify (OrderFailed ''BTCUSDT'' ''API Error 400: Margin is insufficient.'')"
proof -
  let ?sg = "demo_signal 0.9 1"
  let ?e1 = "''API Error 400: Order would immediately trigger.''"
  let ?e2 = "''API Error 400: Margin is insufficient.''"
  let ?w1 = "snd (place_order_body (demo_client stale) ?sg 7 new_order_manager)"
  let ?w2 = "snd (place_order_body (demo_client rejecting) ?sg 7 new_order_manager)"
  have b1: "place_order_body (demo_client stale) ?sg 7 new_order_manager = (Inl ?e1, ?w1)"
    using body_stale by (simp add: prod_eq_iff)
  have b2: "place_order_body (demo_client rejecting) ?sg 7 new_order_manager = (Inl ?e2, ?w2)"
    using body_rejecting by (simp add: prod_eq_iff)
  have s1: "is_substring ''Order would immediately trigger'' ?e1" by simp
  have s2: "\<not> is_substring ''Order would immediately trigger'' ?e2" by simp
  have sym: "sig_symbol ?sg = ''BTCUSDT''" by (simp add: demo_signal_def)
  have t0: "trace new_order_manager = []" by (simp add: new_order_manager_def)
  from place_order_defers_on_trigger_phrase[OF b1] s1
  have d: "place_order (demo_client stale) ?sg 7 new_order_manager = (Inr None, ?w1)"
    and "\<exists>new. trace ?w1 = trace new_order_manager @ new
          \<and> list_all (\<lambda>c. \<not> is_cancel c \<and> \<not> is_failure_alert c) new"
    by blast+
  then have n: "list_all (\<lambda>c. \<not> is_cancel c \<and> \<not> is_failure_alert c) (trace ?w1)"
    by (auto simp: t0)
  from place_order_defers_on_trigger_phrase[OF b2] s2
  have r: "place_order (demo_client rejecting) ?sg 7 new_order_manager
        = (Inl ?e2, handle_failure (demo_client rejecting) (sig_symbol ?sg) ?e2 ?w2)"
    and "\<exists>new. trace (handle_failure (demo_client rejecting) (sig_symbol ?sg) ?e2 ?w2)
          = trace ?w2 @ [CancelAllOrders (sig_symbol ?sg)] @ new
            @ [Notify (OrderFailed (sig_symbol ?sg) ?e2)]"
    by blast+
  then obtain new where
    "trace (snd (place_order (demo_client rejecting) ?sg 7 new_order_manager))
       = trace ?w2 @ [CancelAllOrders ''BTCUSDT''] @ new @ [Notify (OrderFailed ''BTCUSDT'' ?e2)]"
    by (auto simp: sym)
  then have c: "list_ex is_cancel
        (trace (snd (place_order (demo_client rejecting) ?sg 7 new_order_manager)))"
    and l: "last (trace (snd (place_order (demo_client rejecting) ?sg 7 new_order_manager)))
        = Notify (OrderFailed ''BTCUSDT'' ?e2)"
    by (simp_all add: list_ex_iff)
  from n have "\<not> list_ex is_cancel (trace ?w1)" "\<not> list_ex is_failure_alert (trace ?w1)"
    by (auto simp: list_all_iff list_ex_iff)
  with d r c l show ?thesis by simp
qed

section \<open>Deferral after the entry has filled\<close>

lemma market_attempt_filled:
  assumes "market_attempt cl s sd q w = (Inr ord, w')"
  shows "0 < executed ord \<and> CreateOrder (market_request s sd q) \<in> set (trace w')"
  using assms
  by (auto simp: market_attempt_def and_then_def returns_def raises_def call_create_order_def
        call_get_order_def issue_def split: sum.splits if_splits)

lemma execute_market_order_loop_filled:
  "execute_market_order_loop cl s sd q attempts w = (Inr (Some ord), w') \<Longrightarrow>
   0 < executed ord \<and> CreateOrder (market_request s sd q) \<in> set (trace w')"
proof (induction attempts arbitrary: w)
  case Nil
  then show ?case by simp
next
  case (Cons attempt rest)
  obtain r1 w1 where a: "market_attempt cl s sd q w = (r1, w1)"
    by (cases "market_attempt cl s sd q w")
  show ?case
  proof (cases r1)
    case (Inr o1)
    with Cons.prems a have "o1 = ord" "w1 = w'" by simp_all
    with a Inr show ?thesis using market_attempt_filled by blast
  next
    case (Inl e)
    with Cons.prems a have "execute_market_order_loop cl s sd q rest w1 = (Inr (Some ord), w')"
      by (simp split: if_splits)
    then show ?thesis by (rule Cons.IH)
  qed
qed

text \<open>
  Claim C10, as amended.  The entry order has filled (the existing-position check passed,
  the market order came back executed, a fill price was found) and bracket placement
  then raises an error whose message contains \<open>Order would immediately trigger\<close>.
  Then \<open>place_order\<close> returns \<open>None\<close>; the entry order was issued and is filled;
  none of the calls issued after it is an order cancellation, a market order (so nothing
  flattens the position) or a failure alert, so whatever protective orders were accepted
  before the error stay in place; and the ledger is as it was before the call, so the
  position is not recorded.
\<close>

theorem deferral_covers_bracket_phase:
  assumes "check_existing_position cl (sig_symbol sg) w = (Inr u, w1)"
    and "execute_market_order cl (sig_symbol sg) (sig_side sg) (size sg) w1
           = (Inr (Some ord), w2)"
    and "fill_price_or_market cl (sig_symbol sg) ord w2 = (Inr avg_price, w3)"
    and "place_sl_tp_orders cl (sig_symbol sg) (sig_side sg) (executed ord) avg_price
           (sig_stop_loss sg) (sig_take_profits sg) w3 = (Inl e, w4)"
    and "is_substring ''Order would immediately trigger'' e"
  shows "place_order cl sg now w = (Inr None, w4)
       \<and> 0 < executed ord
       \<and> CreateOrder (market_request (sig_symbol sg) (sig_side sg) (size sg)) \<in> set (trace w2)
       \<and> (\<exists>new. trace w4 = trace w2 @ new
             \<and> list_all (\<lambda>c. \<not> is_cancel c \<and> \<not> is_market_order c \<and> \<not> is_failure_alert c) new)
       \<and> position_tracker w4 = position_tracker w"
proof -
  let ?Q = "\<lambda>c. \<not> is_cancel c \<and> \<not> is_market_order c \<and> \<not> is_failure_alert c"
  have filled: "0 < executed ord"
    "CreateOrder (market_request (sig_symbol sg) (sig_side sg) (size sg)) \<in> set (trace w2)"
    using execute_market_order_loop_filled[OF assms(2)[unfolded execute_market_order_def]]
    by simp_all
  have body: "place_order_body cl sg now w = (Inl e, w4)"
    using assms(1-4) filled(1)
    by (simp add: place_order_body_def protect_and_record_def and_then_def)
  have "only_calls (\<lambda>c. True) (check_existing_position cl (sig_symbol sg))"
    by (rule only_calls_check_existing_position) simp_all
  from only_callsD[OF this assms(1)]
  have p1: "position_tracker w1 = position_tracker w" by auto
  have "only_calls (\<lambda>c. True)
      (execute_market_order_loop cl (sig_symbol sg) (sig_side sg) (size sg) [0, 1, 2])"
    by (rule only_calls_execute_market_order_loop) simp_all
  from only_callsD[OF this assms(2)[unfolded execute_market_order_def]]
  have p2: "position_tracker w2 = position_tracker w1" by auto
  have "only_calls ?Q (fill_price_or_market cl (sig_symbol sg) ord)"
    by (rule only_calls_fill_price_or_market) simp_all
  from only_callsD[OF this assms(3)]
  obtain n3 where n3: "w3 = w2\<lparr>trace := trace w2 @ n3\<rparr>" "list_all ?Q n3" by blast
  have "only_calls ?Q (place_sl_tp_orders cl (sig_symbol sg) (sig_side sg) (executed ord)
      avg_price (sig_stop_loss sg) (sig_take_profits sg))"
    by (rule only_calls_place_sl_tp_orders) simp_all
  from only_callsD[OF this assms(4)]
  obtain n4 where n4: "w4 = w3\<lparr>trace := trace w3 @ n4\<rparr>" "list_all ?Q n4" by blast
  from n3 n4 have "trace w4 = trace w2 @ (n3 @ n4) \<and> list_all ?Q (n3 @ n4)" by simp
  then have new: "\<exists>new. trace w4 = trace w2 @ new \<and> list_all ?Q new" by blast
  from n3 n4 p1 p2 have p: "position_tracker w4 = position_tracker w" by simp
  from body assms(5) have "place_order cl sg now w = (Inr None, w4)"
    by (simp add: place_order_def trigger_phrase_def)
  with filled new p show ?thesis by simp
qed

text \<open>
  The theorem of C10 on an exchange that fills the entry and answers every stop-loss
  order with the trigger error: the whole run is the position query, the entry, the
  price and precision queries and three refused stop-loss orders.
\<close>

theorem deferral_covers_bracket_phase_witness:
  "place_order (demo_client stale) (demo_signal 0.9 1) 7 new_order_manager
     = (Inr None,
        new_order_manager
          \<lparr>trace :=
             [GetPositionRisk,
              CreateOrder (market_request ''BTCUSDT'' BUY 1),
              GetKlines ''BTCUSDT'', GetPrecision ''BTCUSDT'',
              CreateOrder (sl_request ''BTCUSDT'' BUY 1 (9997 / 100)),
              CreateOrder (sl_request ''BTCUSDT'' BUY 1 (10007 / 100)),
              CreateOrder (sl_request ''BTCUSDT'' BUY 1 (10017 / 100))]\<rparr>)
   \<and> 0 < executed demo_order
   \<and> position_tracker (snd (place_order (demo_client stale) (demo_signal 0.9 1) 7
                               new_order_manager)) = new_tracker"
proof -
  let ?cl = "demo_client stale"
  let ?sg = "demo_signal 0.9 1"
  let ?w1 = "new_order_manager\<lparr>trace := [GetPositionRisk]\<rparr>"
  let ?w2 = "new_order_manager\<lparr>trace := [GetPositionRisk,
              CreateOrder (market_request ''BTCUSDT'' BUY 1)]\<rparr>"
  let ?w4 = "new_order_manager
          \<lparr>trace :=
             [GetPositionRisk,
              CreateOrder (market_request ''BTCUSDT'' BUY 1),
              GetKlines ''BTCUSDT'', GetPrecision ''BTCUSDT'',
              CreateOrder (sl_request ''BTCUSDT'' BUY 1 (9997 / 100)),
              CreateOrder (sl_request ''BTCUSDT'' BUY 1 (10007 / 100)),
              CreateOrder (sl_request ''BTCUSDT'' BUY 1 (10017 / 100))]\<rparr>"
  have h1: "check_existing_position ?cl (sig_symbol ?sg) new_order_manager = (Inr (), ?w1)"
    by (simp add: om_defs)
  have h2: "execute_market_order ?cl (sig_symbol ?sg) (sig_side ?sg) (size ?sg) ?w1
      = (Inr (Some demo_order), ?w2)"
    by (simp add: om_defs)
  have h3: "fill_price_or_market ?cl (sig_symbol ?sg) demo_order ?w2 = (Inr 100, ?w2)"
    by (simp add: om_defs Let_def)
  have h4: "place_sl_tp_orders ?cl (sig_symbol ?sg) (sig_side ?sg) (executed demo_order) 100
      (sig_stop_loss ?sg) (sig_take_profits ?sg) ?w2
      = (Inl ''API Error 400: Order would immediately trigger.'', ?w4)"
    by (simp add: om_defs upt3 py_round_def Let_def)
  have h5: "is_substring ''Order would immediately trigger''
      ''API Error 400: Order would immediately trigger.''"
    by simp
  from deferral_covers_bracket_phase[OF h1 h2 h3 h4 h5, of 7]
  show ?thesis by (simp add: new_order_manager_def)
qed

text \<open>
  Claim C10 as stated fails in its last part, that the position is left without
  protective orders.  On an exchange that accepts stop-loss orders and answers
  take-profit orders with the trigger error, \<open>place_order\<close> returns \<open>None\<close> after
  three attempts, and the three stop-loss orders it placed were accepted and are not
  cancelled.
\<close>

theorem deferral_leaves_stop_orders_counterexample:
  "place_order (demo_client stale_target)
     ((demo_signal 0.9 1)\<lparr>sig_take_profits := [\<lparr>price = 101, percentage = 50\<rparr>]\<rparr>)
     7 new_order_manager
     = (Inr None,
        new_order_manager
          \<lparr>trace :=
             [GetPositionRisk,
              CreateOrder (market_request ''BTCUSDT'' BUY 1),
              GetKlines ''BTCUSDT'', GetPrecision ''BTCUSDT'',
              CreateOrder (sl_request ''BTCUSDT'' BUY 1 (9997 / 100)),
              CreateOrder (tp_request ''BTCUSDT'' BUY (1 / 2) 101),
              CreateOrder (sl_request ''BTCUSDT'' BUY 1 (10007 / 100)),
              CreateOrder (tp_request ''BTCUSDT'' BUY (1 / 2) (1011 / 10)),
              CreateOrder (sl_request ''BTCUSDT'' BUY 1 (10017 / 100)),
              CreateOrder (tp_request ''BTCUSDT'' BUY (1 / 2) (506 / 5))]\<rparr>)
   \<and> stale_target (sl_request ''BTCUSDT'' BUY 1 (9997 / 100))
       = Inr (demo_order\<lparr>executedQty := Some 0\<rparr>)
   \<and> stale_target (sl_request ''BTCUSDT'' BUY 1 (10007 / 100))
       = Inr (demo_order\<lparr>executedQty := Some 0\<rparr>)
   \<and> stale_target (sl_request ''BTCUSDT'' BUY 1 (10017 / 100))
       = Inr (demo_order\<lparr>executedQty := Some 0\<rparr>)"
  by (simp add: om_defs upt3 py_round_def Let_def stale_target_def)

section \<open>Where the code departs from its documentation\<close>

text \<open>
  For a long position the guard never lowers the proposed stop-loss: it takes the larger
  of the proposal and \<open>current_price - min_sl_diff\<close>, so a stop tighter than the
  minimum distance passes unchanged, while the take-profit guard of the same function
  does move a tight target away from the market.
\<close>

lemma guard_prices_buy_stop:
  "fst (guard_prices BUY cp prec sl tps) = max sl (cp - max (cp * 0.0015) (cp * 0.0005))"
  by (simp add: guard_prices_def Let_def)

lemma guard_prices_buy_target:
  "tp \<in> set tps \<Longrightarrow>
   \<exists>tp' \<in> set (snd (guard_prices BUY cp prec sl tps)).
     price tp' = py_round (max (price tp) (cp + max (cp * 0.002) (cp * 0.0005))) prec"
  by (auto simp: guard_prices_def Let_def)

text \<open>
  Claim C1 at a failing input.  The claim says that the stop-loss placed for a \<open>BUY\<close>
  at market price 100 with a proposed stop-loss of 99.97 is at most 99.95.  With the last
  close at 100 and precision 2, the one stop-loss order \<open>_place_sl_tp_orders\<close>
  issues has stop price 99.97, which is above 99.95.
\<close>

theorem stop_loss_guard_keeps_tight_stop:
  "stop_loss_prices
     (trace (snd (place_sl_tp_orders (demo_client accepting) ''BTCUSDT'' BUY 1 100 (9997 / 100)
                    [] new_order_manager)))
     = [9997 / 100]
   \<and> \<not> (9997 / 100 :: real) \<le> 100 * (1 - 0.0005)"
  by (simp add: om_defs upt3 py_round_def Let_def stop_loss_prices_def map_filter_simps)

text \<open>
  No order placed by \<open>place_order\<close> is followed by an open-orders query.
\<close>

lemma place_order_never_queries_open_orders:
  assumes "place_order cl sg now w = (Inr res, w')"
  shows "\<exists>new. trace w' = trace w @ new \<and> list_all (\<lambda>c. \<not> is_open_orders_query c) new"
proof -
  obtain r1 w1 where b: "place_order_body cl sg now w = (r1, w1)"
    by (cases "place_order_body cl sg now w")
  from place_order_body_no_rollback[OF b] obtain new where
    n: "trace w1 = trace w @ new"
       "list_all (\<lambda>c. \<not> is_cancel c \<and> \<not> is_failure_alert c \<and> \<not> is_open_orders_query c) new"
    by blast
  from assms b have "w' = w1"
    by (auto simp: place_order_def split: sum.splits if_splits)
  with n have "trace w' = trace w @ new \<and> list_all (\<lambda>c. \<not> is_open_orders_query c) new"
    by (simp add: list_all_iff)
  then show ?thesis by blast
qed

text \<open>
  Claim C3 at a failing input.  The claim says that \<open>place_order\<close> checks, by an
  open-orders query, that one stop and the \<open>N\<close> take-profits exist, and fails when
  fewer do.  Here the exchange accepts every order and reports no open order for the
  symbol: \<open>place_order\<close> returns the filled order and records the position without
  ever asking for the open orders.  The first definition of \<open>_place_sl_tp_orders\<close>,
  which the later definition of the same name replaces, does ask and raises here.
\<close>

theorem place_order_skips_open_orders_check:
  "fst (place_order (demo_client accepting)
          ((demo_signal 0.9 1)\<lparr>sig_take_profits := [\<lparr>price = 101, percentage = 50\<rparr>]\<rparr>)
          7 new_order_manager)
     = Inr (Some demo_order)
   \<and> trace (snd (place_order (demo_client accepting)
          ((demo_signal 0.9 1)\<lparr>sig_take_profits := [\<lparr>price = 101, percentage = 50\<rparr>]\<rparr>)
          7 new_order_manager))
     = [GetPositionRisk,
        CreateOrder (market_request ''BTCUSDT'' BUY 1),
        GetKlines ''BTCUSDT'', GetPrecision ''BTCUSDT'',
        CreateOrder (sl_request ''BTCUSDT'' BUY 1 (9997 / 100)),
        CreateOrder (tp_request ''BTCUSDT'' BUY (1 / 2) 101),
        Notify (TradeAlert
                 ((demo_signal 0.9 1)\<lparr>sig_take_profits := [\<lparr>price = 101, percentage = 50\<rparr>]\<rparr>)
                 100)]
   \<and> get_open_orders (demo_client accepting)
        (trace (snd (place_order (demo_client accepting)
          ((demo_signal 0.9 1)\<lparr>sig_take_profits := [\<lparr>price = 101, percentage = 50\<rparr>]\<rparr>)
          7 new_order_manager))) ''BTCUSDT''
     = Inr []
   \<and> tracked (position_tracker (snd (place_order (demo_client accepting)
          ((demo_signal 0.9 1)\<lparr>sig_take_profits := [\<lparr>price = 101, percentage = 50\<rparr>]\<rparr>)
          7 new_order_manager))) ''BTCUSDT''
   \<and> fst (place_sl_tp_orders_first (demo_client accepting) ''BTCUSDT'' BUY 1 100 (9997 / 100)
            [\<lparr>price = 101, percentage = 50\<rparr>] new_order_manager)
     = Inl ''Not all SL/TP orders were placed''"
  by (simp add: om_defs upt3 py_round_def Let_def place_sl_tp_orders_first_def
        new_tracker_def add_position_def tracked_def)

lemma om_close_position_untracked:
  "get_position (position_tracker w) s = None \<Longrightarrow> om_close_position cl s reason now w = (None, w)"
  by (simp add: om_close_position_def)

lemma calculate_pnl_sides:
  "pside p = BUY \<Longrightarrow> calculate_pnl p xp = (xp - entry_price p) * quantity p"
  "pside p = SELL \<Longrightarrow> calculate_pnl p xp = (entry_price p - xp) * quantity p"
  by (simp_all add: calculate_pnl_def)

text \<open>
  Claim C7 at a failing input.  The claim says that \<open>close_position\<close> closes with a
  market reduce-only order.  For the tracked long position \<open>X\<close> of quantity 2 the
  order issued is a market \<open>SELL\<close> of 2 without the \<open>reduceOnly\<close> argument, whatever
  the \<open>risk_manager\<close> attribute is.  The rest of the claim holds: the pnl is 20 in
  both examples of the claim, and an untracked symbol gives \<open>None\<close> and no call.
\<close>

theorem close_position_order_not_reduce_only:
  "take 2 (trace (snd (om_close_position (demo_client accepting) ''X'' ''manual'' 7
                         (new_order_manager\<lparr>position_tracker := demo_ledger,
                                             risk_manager := rm\<rparr>))))
     = [GetKlines ''X'',
        CreateOrder \<lparr>req_symbol = ''X'', req_side = SELL, req_quantity = 2, req_type = MARKET,
                     req_stopPrice = None, req_reduceOnly = False\<rparr>]
   \<and> calculate_pnl demo_x 110 = 20
   \<and> calculate_pnl demo_y 90 = 20
   \<and> om_close_position (demo_client accepting) ''Q'' ''manual'' 7
        (new_order_manager\<lparr>position_tracker := demo_ledger, risk_manager := rm\<rparr>)
      = (None, new_order_manager\<lparr>position_tracker := demo_ledger, risk_manager := rm\<rparr>)"
  by (cases rm)
     (simp_all add: om_close_position_def close_position_body_def close_request_def
        after_close_def calculate_pnl_def om_defs demo_defs)

end
